theory Spec2Isabelle
  imports Main
begin

section \<open>Library functions used by the generator\<close>

text \<open>
  Go strings are byte sequences, modelled as \<open>string\<close>.  The helpers below are the parts of
  package \<^verbatim>\<open>strings\<close> that the registry code calls.  \<open>ToLower\<close> maps the ASCII
  upper-case letters and leaves every other byte alone; names are taken to be ASCII.
\<close>

definition lowerChar :: "char \<Rightarrow> char" where
  "lowerChar c =
     (if (65::nat) \<le> of_char c \<and> (of_char c :: nat) \<le> 90
      then char_of ((of_char c :: nat) + 32) else c)"

definition ToLower :: "string \<Rightarrow> string" where
  "ToLower s = map lowerChar s"

fun HasPrefix :: "string \<Rightarrow> string \<Rightarrow> bool" where
  "HasPrefix s [] = True"
| "HasPrefix [] (p # ps) = False"
| "HasPrefix (c # cs) (p # ps) = (c = p \<and> HasPrefix cs ps)"

text \<open>\<^verbatim>\<open>strings.Contains(s, substr)\<close>: \<open>substr\<close> occurs somewhere in \<open>s\<close>.\<close>

fun Contains :: "string \<Rightarrow> string \<Rightarrow> bool" where
  "Contains [] sub = (sub = [])"
| "Contains (c # cs) sub = (HasPrefix (c # cs) sub \<or> Contains cs sub)"

text \<open>
  \<^verbatim>\<open>strings.Split(s, sep)\<close> for a one-byte separator, the only form the registry code
  uses (\<^verbatim>\<open>"/"\<close> and \<^verbatim>\<open>","\<close>).  The result always has one more element than
  \<open>s\<close> has separators; in particular the empty string splits into one empty piece.
\<close>

fun Split :: "string \<Rightarrow> char \<Rightarrow> string list" where
  "Split [] sep = [[]]"
| "Split (c # cs) sep =
     (if c = sep then [] # Split cs sep
      else (case Split cs sep of
              [] \<Rightarrow> [[c]]
            | p # ps \<Rightarrow> (c # p) # ps))"

section \<open>Run-time type descriptors\<close>

text \<open>
  The values of \<^verbatim>\<open>reflect.Kind\<close>, in the order of package \<^verbatim>\<open>reflect\<close>.
\<close>

datatype kind =
    KInvalid | KBool
  | KInt | KInt8 | KInt16 | KInt32 | KInt64
  | KUint | KUint8 | KUint16 | KUint32 | KUint64 | KUintptr
  | KFloat32 | KFloat64 | KComplex64 | KComplex128
  | KArray | KChan | KFunc | KInterface | KMap | KPtr | KSlice | KString | KStruct
  | KUnsafePointer

text \<open>
  A \<^verbatim>\<open>reflect.Type\<close> as far as the generator looks at it: its kind, \<^verbatim>\<open>Name()\<close>,
  \<^verbatim>\<open>PkgPath()\<close>, \<^verbatim>\<open>String()\<close>, the element type of a pointer or slice, and the fields
  of a struct.  A \<^verbatim>\<open>reflect.StructField\<close> has its name, its \<^verbatim>\<open>PkgPath\<close> (empty exactly
  for an exported field), its type and its tag.  The tag is kept as the key/value pairs
  that \<^verbatim>\<open>StructTag.Get\<close> reads.
\<close>

datatype rtype =
    RType (Kind: kind) (TName: string) (TPkgPath: string) (TString: string)
          (TElem: "rtype option") (TFields: "StructField list")
and StructField =
    StructField (FName: string) (FPkgPath: string) (FType: rtype) (FTag: "(string \<times> string) list")

definition IsExported :: "StructField \<Rightarrow> bool" where
  "IsExported f = (FPkgPath f = [])"

definition TagGet :: "(string \<times> string) list \<Rightarrow> string \<Rightarrow> string" where
  "TagGet tag key = (case map_of tag key of None \<Rightarrow> [] | Some v \<Rightarrow> v)"

section \<open>Data model\<close>

text \<open>
  A Go error value carries its message; a run-time panic is kept apart from it.
\<close>

datatype failure = Err string | Panic string

record SchemaVersion =
  sv_Version :: string
  sv_IsDefault :: bool
  sv_Stability :: string
  sv_Deprecated :: bool
  sv_SpecType :: string
  sv_StatusType :: string
  sv_TypeName :: string
  sv_Package :: string
  sv_Transforms :: "string list"

record SpecField =
  sf_Name :: string
  sf_JSONName :: string
  sf_Type :: string
  sf_Required :: bool
  sf_ExampleValue :: string

text \<open>\<open>rm_Tags\<close> is a Go map: \<open>None\<close> is the nil map.\<close>

record ResourceMetadata =
  rm_Name :: string
  rm_PluralName :: string
  rm_Package :: string
  rm_PackageAlias :: string
  rm_TypeName :: string
  rm_SpecType :: string
  rm_StatusType :: string
  rm_URLPath :: string
  rm_StorageName :: string
  rm_Tags :: "(string \<rightharpoonup> string) option"
  rm_SpecFields :: "SpecField list"
  rm_StatusFields :: "SpecField list"
  rm_Versions :: "SchemaVersion list"
  rm_DefaultVersion :: string
  rm_APIGroupVersion :: string

record GeneratorConfig =
  gc_ValidationEnabled :: bool
  gc_ValidationMode :: string
  gc_ConditionalEnabled :: bool
  gc_ETagAlgorithm :: string
  gc_VersioningEnabled :: bool
  gc_VersionStrategy :: string
  gc_EventsEnabled :: bool
  gc_EventBusType :: string
  gc_StorageType :: string
  gc_DBDriver :: string

text \<open>A parsed template: its logical name and the text it was parsed from.\<close>

datatype Template = Template string string

record Generator =
  g_OutputDir :: string
  g_PackageName :: string
  g_ModulePath :: string
  g_Resources :: "ResourceMetadata list"
  g_Templates :: "string \<rightharpoonup> Template"
  g_StorageType :: string
  g_DBDriver :: string
  g_Verbose :: bool
  g_Config :: GeneratorConfig
  g_Version :: string

section \<open>Constructor and setters\<close>

definition NewGenerator :: "string \<Rightarrow> string \<Rightarrow> string \<Rightarrow> Generator" where
  "NewGenerator outputDir packageName modulePath =
     \<lparr> g_OutputDir = outputDir,
       g_PackageName = packageName,
       g_ModulePath = modulePath,
       g_Resources = [],
       g_Templates = Map.empty,
       g_StorageType = ''file'',
       g_DBDriver = ''sqlite'',
       g_Verbose = False,
       g_Config =
         \<lparr> gc_ValidationEnabled = True,
           gc_ValidationMode = ''strict'',
           gc_ConditionalEnabled = True,
           gc_ETagAlgorithm = ''sha256'',
           gc_VersioningEnabled = True,
           gc_VersionStrategy = ''header'',
           gc_EventsEnabled = False,
           gc_EventBusType = ''memory'',
           gc_StorageType = ''file'',
           gc_DBDriver = ''sqlite'' \<rparr>,
       g_Version = [] \<rparr>"

definition SetStorageType :: "Generator \<Rightarrow> string \<Rightarrow> Generator" where
  "SetStorageType g storageType = g\<lparr>g_StorageType := storageType\<rparr>"

definition SetDBDriver :: "Generator \<Rightarrow> string \<Rightarrow> Generator" where
  "SetDBDriver g driver = g\<lparr>g_DBDriver := driver\<rparr>"

section \<open>Type introspection\<close>

text \<open>
  \<open>generateExampleValue\<close>: the switch on the kind, and for a string the first
  matching case of the inner switch on the lower-cased field name.  Every slice type has
  an element type; the model answers \<^verbatim>\<open>[]\<close> for a descriptor without one.
\<close>

definition generateExampleValue :: "rtype \<Rightarrow> string \<Rightarrow> string" where
  "generateExampleValue t fieldName =
     (if Kind t = KString then
        (let lowerName = ToLower fieldName in
         if Contains lowerName ''name'' then ''example-name''
         else if Contains lowerName ''description'' then ''Example description''
         else if Contains lowerName ''email'' then ''user@example.com''
         else if Contains lowerName ''url'' \<or> Contains lowerName ''uri'' then ''https://example.com''
         else if Contains lowerName ''ip'' \<or> Contains lowerName ''address'' then ''192.168.1.1''
         else if Contains lowerName ''location'' then ''DataCenter A''
         else ''example-value'')
      else if Kind t \<in> {KInt, KInt8, KInt16, KInt32, KInt64} then ''42''
      else if Kind t \<in> {KUint, KUint8, KUint16, KUint32, KUint64} then ''42''
      else if Kind t \<in> {KFloat32, KFloat64} then ''3.14''
      else if Kind t = KBool then ''true''
      else if Kind t = KSlice then
        (case TElem t of
           Some elemType \<Rightarrow> if Kind elemType = KString then ''[\"item1\",\"item2\"]'' else ''[]''
         | None \<Rightarrow> ''[]'')
      else if Kind t = KMap then ''{\"key\":\"value\"}''
      else ''{}'')"

text \<open>
  The body of the inner loop of \<open>extractFields\<close> for one field of the sub-record: an
  unexported field is skipped; every other field is appended.  The first segment of the
  \<^verbatim>\<open>json\<close> tag replaces the serialization name unless it is empty or \<^verbatim>\<open>-\<close>.
\<close>

definition fieldJSONName :: "StructField \<Rightarrow> string" where
  "fieldJSONName structField =
     (let jsonTag = TagGet (FTag structField) ''json'';
          jsonName = FName structField
      in if jsonTag \<noteq> [] then
           (let parts = Split jsonTag (CHR '','') in
            if hd parts \<noteq> [] \<and> hd parts \<noteq> ''-'' then hd parts else jsonName)
         else jsonName)"

fun collectFields :: "StructField list \<Rightarrow> SpecField list \<Rightarrow> SpecField list" where
  "collectFields [] fs = fs"
| "collectFields (structField # rest) fs =
     (if \<not> IsExported structField then collectFields rest fs
      else collectFields rest
             (fs @
              [\<lparr> sf_Name = FName structField,
                 sf_JSONName = fieldJSONName structField,
                 sf_Type = TString (FType structField),
                 sf_Required = Contains (TagGet (FTag structField) ''validate'') ''required'',
                 sf_ExampleValue = generateExampleValue (FType structField) (FName structField) \<rparr>]))"

text \<open>
  The outer loop of \<open>extractFields\<close>: the first field named \<open>targetField\<close> decides
  (\<^verbatim>\<open>break\<close>).  \<^verbatim>\<open>NumField\<close> panics on a type that is not a struct, and so does
  \<^verbatim>\<open>Elem\<close> on a type without element.
\<close>

fun findTarget :: "StructField list \<Rightarrow> string \<Rightarrow> failure + SpecField list" where
  "findTarget [] targetField = Inr []"
| "findTarget (field # rest) targetField =
     (if FName field = targetField then
        (if Kind (FType field) = KPtr then
           (case TElem (FType field) of
              None \<Rightarrow> Inl (Panic ''reflect: Elem of invalid type'')
            | Some structType \<Rightarrow>
                if Kind structType \<noteq> KStruct then Inl (Panic ''reflect: NumField of non-struct type'')
                else Inr (collectFields (TFields structType) []))
         else if Kind (FType field) \<noteq> KStruct then Inl (Panic ''reflect: NumField of non-struct type'')
         else Inr (collectFields (TFields (FType field)) []))
      else findTarget rest targetField)"

definition extractFields :: "rtype \<Rightarrow> string \<Rightarrow> failure + SpecField list" where
  "extractFields resourceType targetField =
     (if Kind resourceType \<noteq> KStruct then Inl (Panic ''reflect: NumField of non-struct type'')
      else findTarget (TFields resourceType) targetField)"

section \<open>Metadata registry\<close>

text \<open>
  \<open>RegisterResource\<close> receives a value of any type; the model receives its dynamic type,
  \<open>None\<close> for the nil interface value, where \<^verbatim>\<open>reflect.TypeOf\<close> yields nil and the call
  of \<^verbatim>\<open>Kind\<close> panics.  The returned pair is the error (\<open>None\<close> for nil) and the
  generator after the call.
\<close>

definition RegisterResource :: "Generator \<Rightarrow> rtype option \<Rightarrow> failure option \<times> Generator" where
  "RegisterResource g resourceType =
     (case resourceType of
        None \<Rightarrow> (Some (Panic ''invalid memory address or nil pointer dereference''), g)
      | Some t0 \<Rightarrow>
          (case (if Kind t0 = KPtr then TElem t0 else Some t0) of
             None \<Rightarrow> (Some (Panic ''reflect: Elem of invalid type''), g)
           | Some t \<Rightarrow>
               (let name = TName t;
                    pluralName = ToLower name @ ''s'';
                    specTypeName = name @ ''Spec'';
                    storageName = name;
                    pkgPath = TPkgPath t;
                    parts = Split pkgPath (CHR ''/'');
                    typePrefix = (if length parts > 0 then last parts else ''resources'');
                    packageImport = pkgPath
                in case extractFields t ''Spec'' of
                     Inl e \<Rightarrow> (Some e, g)
                   | Inr specFields \<Rightarrow>
                 (case extractFields t ''Status'' of
                     Inl e \<Rightarrow> (Some e, g)
                   | Inr statusFields \<Rightarrow>
                       (let defaultVersion =
                              \<lparr> sv_Version = ''v1'',
                                sv_IsDefault = True,
                                sv_Stability = ''stable'',
                                sv_Deprecated = False,
                                sv_SpecType = typePrefix @ ''.'' @ specTypeName,
                                sv_StatusType = typePrefix @ ''.'' @ name @ ''Status'',
                                sv_TypeName = ''*'' @ typePrefix @ ''.'' @ name,
                                sv_Package = packageImport,
                                sv_Transforms = [] \<rparr>;
                            metadata =
                              \<lparr> rm_Name = name,
                                rm_PluralName = pluralName,
                                rm_Package = packageImport,
                                rm_PackageAlias = typePrefix,
                                rm_TypeName = ''*'' @ typePrefix @ ''.'' @ name,
                                rm_SpecType = typePrefix @ ''.'' @ specTypeName,
                                rm_StatusType = typePrefix @ ''.'' @ name @ ''Status'',
                                rm_URLPath = ''/'' @ pluralName,
                                rm_StorageName = storageName,
                                rm_Tags = Some Map.empty,
                                rm_SpecFields = specFields,
                                rm_StatusFields = statusFields,
                                rm_Versions = [defaultVersion],
                                rm_DefaultVersion = ''v1'',
                                rm_APIGroupVersion = ''v1'' \<rparr>
                        in (None, g\<lparr>g_Resources := g_Resources g @ [metadata]\<rparr>))))))"

text \<open>
  \<open>SetResourceTag\<close>: the loop stops at the first resource of that name; the tag map is
  made on the first write.
\<close>

fun setTagLoop :: "ResourceMetadata list \<Rightarrow> string \<Rightarrow> string \<Rightarrow> string \<Rightarrow> ResourceMetadata list" where
  "setTagLoop [] resourceName key val = []"
| "setTagLoop (r # rs) resourceName key val =
     (if rm_Name r = resourceName then
        (let tags = (case rm_Tags r of None \<Rightarrow> Map.empty | Some m \<Rightarrow> m)
         in r\<lparr>rm_Tags := Some (tags(key \<mapsto> val))\<rparr> # rs)
      else r # setTagLoop rs resourceName key val)"

definition SetResourceTag :: "Generator \<Rightarrow> string \<Rightarrow> string \<Rightarrow> string \<Rightarrow> Generator" where
  "SetResourceTag g resourceName key val =
     g\<lparr>g_Resources := setTagLoop (g_Resources g) resourceName key val\<rparr>"

text \<open>
  \<open>AddResourceVersion\<close>: the first resource of that name decides.  An existing label
  returns the error before anything is written; otherwise the version is appended and the
  default pointer follows a version marked default.
\<close>

fun addVersionLoop ::
  "ResourceMetadata list \<Rightarrow> string \<Rightarrow> SchemaVersion \<Rightarrow> failure + ResourceMetadata list" where
  "addVersionLoop [] resourceName version =
     Inl (Err (''resource '' @ resourceName @ '' not found''))"
| "addVersionLoop (resource # rs) resourceName version =
     (if rm_Name resource = resourceName then
        (if list_ex (\<lambda>existingVersion. sv_Version existingVersion = sv_Version version)
              (rm_Versions resource)
         then Inl (Err (''version '' @ sv_Version version @ '' already exists for resource ''
                        @ resourceName))
         else Inr (resource
                    \<lparr> rm_Versions := rm_Versions resource @ [version],
                      rm_DefaultVersion :=
                        (if sv_IsDefault version then sv_Version version
                         else rm_DefaultVersion resource) \<rparr> # rs))
      else (case addVersionLoop rs resourceName version of
              Inl e \<Rightarrow> Inl e
            | Inr rs' \<Rightarrow> Inr (resource # rs')))"

definition AddResourceVersion ::
  "Generator \<Rightarrow> string \<Rightarrow> SchemaVersion \<Rightarrow> failure option \<times> Generator" where
  "AddResourceVersion g resourceName version =
     (case addVersionLoop (g_Resources g) resourceName version of
        Inl e \<Rightarrow> (Some e, g)
      | Inr rs' \<Rightarrow> (None, g\<lparr>g_Resources := rs'\<rparr>))"


text \<open>
  \<open>GetResourceByName\<close> returns a pointer to the first resource of that name and a found
  flag; the model returns the resource it points to, or \<open>None\<close>.
\<close>

definition GetResourceByName :: "Generator \<Rightarrow> string \<Rightarrow> ResourceMetadata option" where
  "GetResourceByName g name = find (\<lambda>resource. rm_Name resource = name) (g_Resources g)"

subsection \<open>Sequences of registry operations\<close>




section \<open>Generation pipeline\<close>

subsection \<open>The outside world\<close>

text \<open>
  The values a template receives: the three data builders return a Go map from names to
  values of any type, kept here as a list of named values.
\<close>

datatype tvalue =
    VString string
  | VBool bool
  | VTags "(string \<rightharpoonup> string) option"
  | VFields "SpecField list"
  | VVersions "SchemaVersion list"
  | VResources "ResourceMetadata list"
  | VConfig GeneratorConfig

type_synonym tdata = "(string \<times> tvalue) list"

text \<open>
  What the generator calls and does not define: reading the embedded template files,
  parsing and executing a template, the source formatter, the clock, and the two file system
  calls that change something.  A library error is its message (\<open>Inl\<close>, or \<open>Some\<close> where
  nothing else is returned).
\<close>

record env =
  env_ReadFile :: "string \<Rightarrow> string + string"
  env_Parse :: "string \<Rightarrow> string \<Rightarrow> string option"
  env_Execute :: "Template \<Rightarrow> tdata \<Rightarrow> string + string"
  env_FormatSource :: "string \<Rightarrow> string + string"
  env_Now :: string
  env_MkdirAll :: "string \<Rightarrow> string option"
  env_WriteFile :: "string \<Rightarrow> string option"

text \<open>
  The state outside the generator: the files and directories written, and the log of
  template executions, one entry for every call of \<^verbatim>\<open>Execute\<close> with the logical name the
  template was looked up under and the data passed.  Lines printed to standard output are
  left out.
\<close>

record world =
  w_files :: "string \<rightharpoonup> string"
  w_dirs :: "string set"
  w_executed :: "(string \<times> tdata) list"

text \<open>
  \<^verbatim>\<open>filepath.Join\<close> joins the non-empty elements with a slash; the cleaning of the
  joined path is left out.  \<^verbatim>\<open>filepath.Ext\<close> is the suffix from the last dot of the last
  path element.
\<close>

fun joinWith :: "string list \<Rightarrow> string" where
  "joinWith [] = []"
| "joinWith [e] = e"
| "joinWith (e # es) = e @ ''/'' @ joinWith es"

definition Join :: "string list \<Rightarrow> string" where
  "Join elems = joinWith (filter (\<lambda>e. e \<noteq> []) elems)"

fun extScan :: "string \<Rightarrow> string \<Rightarrow> string" where
  "extScan [] suffix = []"
| "extScan (c # revPrefix) suffix =
     (if c = CHR ''/'' then []
      else if c = CHR ''.'' then c # suffix
      else extScan revPrefix (c # suffix))"

definition Ext :: "string \<Rightarrow> string" where
  "Ext path = extScan (rev path) []"

definition ReplaceAll1 :: "string \<Rightarrow> char \<Rightarrow> char \<Rightarrow> string" where
  "ReplaceAll1 s old new = map (\<lambda>c. if c = old then new else c) s"

subsection \<open>Primitive steps\<close>

text \<open>
  A step takes the world and returns the error (\<open>None\<close> for nil) and the world after it;
  \<open>thenDo\<close> is \<^verbatim>\<open>if err != nil { return err }\<close> between two steps, and \<open>runStages\<close> a
  sequence of steps joined so.
\<close>

type_synonym step = "world \<Rightarrow> failure option \<times> world"

definition thenDo :: "failure option \<times> world \<Rightarrow> step \<Rightarrow> failure option \<times> world" where
  "thenDo r f = (case r of (Some e, w) \<Rightarrow> (Some e, w) | (None, w) \<Rightarrow> f w)"

fun runStages :: "step list \<Rightarrow> step" where
  "runStages [] w = (None, w)"
| "runStages (s # ss) w = thenDo (s w) (runStages ss)"

definition wrap :: "string \<Rightarrow> string \<Rightarrow> failure" where
  "wrap msg cause = Err (msg @ '': '' @ cause)"

definition WriteFile :: "env \<Rightarrow> string \<Rightarrow> string \<Rightarrow> string \<Rightarrow> step" where
  "WriteFile E filename content msg w =
     (case env_WriteFile E filename of
        Some cause \<Rightarrow> (Some (wrap msg cause), w)
      | None \<Rightarrow> (None, w\<lparr>w_files := (w_files w)(filename \<mapsto> content)\<rparr>))"

definition MkdirAll :: "env \<Rightarrow> string \<Rightarrow> string \<Rightarrow> step" where
  "MkdirAll E dir msg w =
     (case env_MkdirAll E dir of
        Some cause \<Rightarrow> (Some (wrap msg cause), w)
      | None \<Rightarrow> (None, w\<lparr>w_dirs := insert dir (w_dirs w)\<rparr>))"

text \<open>
  \<open>render\<close> is the pair of calls every stage makes: execute the template found under
  \<open>name\<close> in the generator's map into a buffer, then format the buffer.  A name missing from
  the map yields the nil template, whose execution panics.
\<close>

definition render ::
  "env \<Rightarrow> Generator \<Rightarrow> string \<Rightarrow> tdata \<Rightarrow> string \<Rightarrow> string \<Rightarrow> world \<Rightarrow> (failure + string) \<times> world" where
  "render E g name data execMsg formatMsg w =
     (case g_Templates g name of
        None \<Rightarrow> (Inl (Panic ''invalid memory address or nil pointer dereference''), w)
      | Some tmpl \<Rightarrow>
          (let w1 = w\<lparr>w_executed := w_executed w @ [(name, data)]\<rparr> in
           case env_Execute E tmpl data of
             Inl cause \<Rightarrow> (Inl (wrap execMsg cause), w1)
           | Inr buf \<Rightarrow>
               (case env_FormatSource E buf of
                  Inl cause \<Rightarrow> (Inl (wrap formatMsg cause), w1)
                | Inr formatted \<Rightarrow> (Inr formatted, w1))))"

text \<open>Render, then write the formatted text to \<open>filename\<close>.\<close>

definition emit ::
  "env \<Rightarrow> Generator \<Rightarrow> string \<Rightarrow> tdata \<Rightarrow> string \<Rightarrow> string \<Rightarrow> string \<Rightarrow> string \<Rightarrow> step" where
  "emit E g name data filename execMsg formatMsg writeMsg w =
     (case render E g name data execMsg formatMsg w of
        (Inl e, w1) \<Rightarrow> (Some e, w1)
      | (Inr formatted, w1) \<Rightarrow> WriteFile E filename formatted writeMsg w1)"

subsection \<open>Data-context builders\<close>

definition perResVersioning :: "ResourceMetadata \<Rightarrow> bool" where
  "perResVersioning resource =
     (case rm_Tags resource of
        None \<Rightarrow> False
      | Some tags \<Rightarrow>
          (case tags ''versioning'' of
             None \<Rightarrow> False
           | Some v \<Rightarrow> v = ''enabled'' \<or> v = ''true'' \<or> v = ''1''))"

definition templateData :: "env \<Rightarrow> Generator \<Rightarrow> ResourceMetadata \<Rightarrow> string \<Rightarrow> tdata" where
  "templateData E g resource templateName =
     [(''Name'', VString (rm_Name resource)),
      (''PluralName'', VString (rm_PluralName resource)),
      (''Package'', VString (rm_Package resource)),
      (''PackageAlias'', VString (rm_PackageAlias resource)),
      (''TypeName'', VString (rm_TypeName resource)),
      (''SpecType'', VString (rm_SpecType resource)),
      (''StatusType'', VString (rm_StatusType resource)),
      (''URLPath'', VString (rm_URLPath resource)),
      (''StorageName'', VString (rm_StorageName resource)),
      (''Tags'', VTags (rm_Tags resource)),
      (''PerResourceVersioning'', VBool (perResVersioning resource)),
      (''SpecFields'', VFields (rm_SpecFields resource)),
      (''StatusFields'', VFields (rm_StatusFields resource)),
      (''Versions'', VVersions (rm_Versions resource)),
      (''DefaultVersion'', VString (rm_DefaultVersion resource)),
      (''APIGroupVersion'', VString (rm_APIGroupVersion resource)),
      (''ModulePath'', VString (g_ModulePath g)),
      (''Version'', VString (g_Version g)),
      (''GeneratedAt'', VString (env_Now E)),
      (''Template'', VString templateName)]"

definition extractProjectName :: "Generator \<Rightarrow> string" where
  "extractProjectName g =
     (let parts = Split (g_ModulePath g) (CHR ''/'') in
      if length parts > 0 then
        (let projectName = last parts in
         ReplaceAll1 (ReplaceAll1 projectName (CHR ''-'') (CHR ''_'')) (CHR ''.'') (CHR ''_''))
      else ''app'')"

definition globalTemplateData :: "env \<Rightarrow> Generator \<Rightarrow> string \<Rightarrow> tdata" where
  "globalTemplateData E g templateName =
     [(''PackageName'', VString (g_PackageName g)),
      (''ModulePath'', VString (g_ModulePath g)),
      (''Resources'', VResources (g_Resources g)),
      (''ProjectName'', VString (extractProjectName g)),
      (''StorageType'', VString (g_StorageType g)),
      (''DBDriver'', VString (g_DBDriver g)),
      (''Config'', VConfig (g_Config g)),
      (''Version'', VString (g_Version g)),
      (''GeneratedAt'', VString (env_Now E)),
      (''Template'', VString templateName)]"

definition middlewareData :: "env \<Rightarrow> Generator \<Rightarrow> string \<Rightarrow> tdata" where
  "middlewareData E g templateName =
     [(''ValidationMode'', VString (gc_ValidationMode (g_Config g))),
      (''ValidationEnabled'', VBool (gc_ValidationEnabled (g_Config g))),
      (''ETagAlgorithm'', VString (gc_ETagAlgorithm (g_Config g))),
      (''VersionStrategy'', VString (gc_VersionStrategy (g_Config g))),
      (''EventBusType'', VString (gc_EventBusType (g_Config g))),
      (''EventsEnabled'', VBool (gc_EventsEnabled (g_Config g))),
      (''Version'', VString (g_Version g)),
      (''GeneratedAt'', VString (env_Now E)),
      (''Template'', VString templateName)]"

subsection \<open>Template store\<close>

definition templateFiles :: "(string \<times> string) list" where
  "templateFiles =
     [(''handlers'', ''server/handlers.go.tmpl''),
      (''routes'', ''server/routes.go.tmpl''),
      (''models'', ''server/models.go.tmpl''),
      (''openapi'', ''server/openapi.go.tmpl''),
      (''flatModels'', ''server/flat_models.go.tmpl''),
      (''flatHandlers'', ''server/flat_handlers.go.tmpl''),
      (''client'', ''client/client.go.tmpl''),
      (''clientModels'', ''client/models.go.tmpl''),
      (''clientCmd'', ''client/cmd.go.tmpl''),
      (''storage'', ''storage/file.go.tmpl''),
      (''storageEnt'', ''storage/ent.go.tmpl''),
      (''entAdapter'', ''storage/adapter.go.tmpl''),
      (''generate'', ''storage/generate.go.tmpl''),
      (''entSchemaResource'', ''ent/schema/resource.go.tmpl''),
      (''entSchemaLabel'', ''ent/schema/label.go.tmpl''),
      (''entSchemaAnnotation'', ''ent/schema/annotation.go.tmpl''),
      (''middlewareValidation'', ''middleware/validation.go.tmpl''),
      (''middlewareConditional'', ''middleware/conditional.go.tmpl''),
      (''middlewareVersioning'', ''middleware/versioning.go.tmpl''),
      (''eventBus'', ''middleware/event-bus.go.tmpl''),
      (''reconciler'', ''reconciliation/reconciler.go.tmpl''),
      (''reconcilerStub'', ''reconciliation/stub.go.tmpl''),
      (''reconcilerRegistration'', ''reconciliation/registration.go.tmpl''),
      (''eventHandlers'', ''reconciliation/event-handlers.go.tmpl'')]"

text \<open>
  \<open>LoadTemplates\<close> replaces the template map by a new one and fills it from the catalog,
  stopping at the first file that cannot be read or parsed.  The source ranges over a Go
  map, whose order is not fixed; the model takes the catalog in the order it is written.
\<close>

fun loadLoop ::
  "env \<Rightarrow> (string \<times> string) list \<Rightarrow> (string \<rightharpoonup> Template) \<Rightarrow> failure option \<times> (string \<rightharpoonup> Template)" where
  "loadLoop E [] templates = (None, templates)"
| "loadLoop E ((name, filename) # rest) templates =
     (let templatePath = Join [''templates'', filename] in
      case env_ReadFile E templatePath of
        Inl cause \<Rightarrow>
          (Some (wrap (''failed to read embedded template '' @ templatePath) cause), templates)
      | Inr content \<Rightarrow>
          (case env_Parse E name content of
             Some cause \<Rightarrow>
               (Some (wrap (''failed to parse template '' @ templatePath) cause), templates)
           | None \<Rightarrow> loadLoop E rest (templates(name \<mapsto> Template name content))))"

definition LoadTemplates :: "env \<Rightarrow> Generator \<Rightarrow> failure option \<times> Generator" where
  "LoadTemplates E g =
     (case loadLoop E templateFiles Map.empty of
        (err, templates) \<Rightarrow> (err, g\<lparr>g_Templates := templates\<rparr>))"

subsection \<open>Stages\<close>

fun handlersLoop :: "env \<Rightarrow> Generator \<Rightarrow> ResourceMetadata list \<Rightarrow> step" where
  "handlersLoop E g [] w = (None, w)"
| "handlersLoop E g (resource # rest) w =
     thenDo
       (emit E g ''handlers'' (templateData E g resource ''server/handlers.go.tmpl'')
          (Join [g_OutputDir g, ToLower (rm_Name resource) @ ''_handlers_generated.go''])
          (''failed to execute handlers template for '' @ rm_Name resource)
          (''failed to format generated code for '' @ rm_Name resource)
          (''failed to write handlers file for '' @ rm_Name resource) w)
       (handlersLoop E g rest)"

fun flatHandlersLoop :: "env \<Rightarrow> Generator \<Rightarrow> ResourceMetadata list \<Rightarrow> step" where
  "flatHandlersLoop E g [] w = (None, w)"
| "flatHandlersLoop E g (resource # rest) w =
     thenDo
       (emit E g ''flatHandlers'' (templateData E g resource ''server/flat_handlers.go.tmpl'')
          (Join [g_OutputDir g, ToLower (rm_Name resource) @ ''_flat_handlers_generated.go''])
          (''failed to execute flat handlers template for '' @ rm_Name resource)
          (''failed to format generated code for '' @ rm_Name resource)
          (''failed to write flat handlers file for '' @ rm_Name resource) w)
       (flatHandlersLoop E g rest)"

definition GenerateFlatHandlers :: "env \<Rightarrow> Generator \<Rightarrow> step" where
  "GenerateFlatHandlers E g w = flatHandlersLoop E g (g_Resources g) w"

text \<open>After its own loop \<open>GenerateHandlers\<close> returns what \<open>GenerateFlatHandlers\<close> returns.\<close>

definition GenerateHandlers :: "env \<Rightarrow> Generator \<Rightarrow> step" where
  "GenerateHandlers E g w =
     thenDo (handlersLoop E g (g_Resources g) w) (GenerateFlatHandlers E g)"

definition GenerateModels :: "env \<Rightarrow> Generator \<Rightarrow> step" where
  "GenerateModels E g w =
     thenDo
       (emit E g ''models'' (globalTemplateData E g ''server/models.go.tmpl'')
          (Join [g_OutputDir g, ''models_generated.go''])
          ''failed to execute models template''
          ''failed to format generated models code''
          ''failed to write models file'' w)
       (emit E g ''flatModels'' (globalTemplateData E g ''server/flat_models.go.tmpl'')
          (Join [g_OutputDir g, ''flat_models_generated.go''])
          ''failed to execute flat models template''
          ''failed to format generated flat models code''
          ''failed to write flat models file'')"

definition generateMiddlewareFile ::
  "env \<Rightarrow> Generator \<Rightarrow> string \<Rightarrow> string \<Rightarrow> string \<Rightarrow> tdata \<Rightarrow> step" where
  "generateMiddlewareFile E g templateName filename outputDir data w =
     emit E g templateName data (Join [outputDir, filename])
       (''failed to execute '' @ templateName @ '' template'')
       (''failed to format generated '' @ templateName @ '' code'')
       (''failed to write '' @ templateName @ '' file'') w"

definition GenerateMiddleware :: "env \<Rightarrow> Generator \<Rightarrow> step" where
  "GenerateMiddleware E g w =
     (let middlewareDir = Join [''internal'', ''middleware''] in
      runStages
        ([MkdirAll E middlewareDir ''failed to create middleware directory''] @
         (if gc_ValidationEnabled (g_Config g) then
            [generateMiddlewareFile E g ''middlewareValidation'' ''validation_middleware_generated.go''
               middlewareDir (middlewareData E g ''middleware/validation.go.tmpl'')]
          else []) @
         (if gc_ConditionalEnabled (g_Config g) then
            [generateMiddlewareFile E g ''middlewareConditional'' ''conditional_middleware_generated.go''
               middlewareDir (middlewareData E g ''middleware/conditional.go.tmpl'')]
          else []) @
         (if gc_VersioningEnabled (g_Config g) then
            [generateMiddlewareFile E g ''middlewareVersioning'' ''versioning_middleware_generated.go''
               middlewareDir (middlewareData E g ''middleware/versioning.go.tmpl'')]
          else []) @
         (if gc_EventsEnabled (g_Config g) then
            [generateMiddlewareFile E g ''eventBus'' ''event_bus_generated.go''
               middlewareDir (middlewareData E g ''middleware/event-bus.go.tmpl'')]
          else []))
        w)"

definition GenerateRoutes :: "env \<Rightarrow> Generator \<Rightarrow> step" where
  "GenerateRoutes E g w =
     emit E g ''routes'' (globalTemplateData E g ''server/routes.go.tmpl'')
       (Join [g_OutputDir g, ''routes_generated.go''])
       ''failed to execute routes template''
       ''failed to format generated routes code''
       ''failed to write routes file'' w"

definition GenerateStorage :: "env \<Rightarrow> Generator \<Rightarrow> step" where
  "GenerateStorage E g w =
     (let templateName = (if g_StorageType g = ''ent'' then ''storageEnt'' else ''storage'');
          templatePath = (if g_StorageType g = ''ent'' then ''storage/ent.go.tmpl''
                          else ''storage/file.go.tmpl'');
          data = globalTemplateData E g templatePath
      in case render E g templateName data
                ''failed to execute storage template''
                ''failed to format generated storage code'' w of
           (Inl e, w1) \<Rightarrow> (Some e, w1)
         | (Inr formatted, w1) \<Rightarrow>
             (let storageDir = Join [''internal'', ''storage''] in
              thenDo (MkdirAll E storageDir ''failed to create storage directory'' w1)
                (WriteFile E (Join [storageDir, ''storage_generated.go'']) formatted
                   ''failed to write storage file'')))"

definition GenerateOpenAPI :: "env \<Rightarrow> Generator \<Rightarrow> step" where
  "GenerateOpenAPI E g w =
     emit E g ''openapi'' (globalTemplateData E g ''server/openapi.go.tmpl'')
       (Join [g_OutputDir g, ''openapi_generated.go''])
       ''failed to execute openapi template''
       ''failed to format generated openapi code''
       ''failed to write openapi file'' w"

definition GenerateClient :: "env \<Rightarrow> Generator \<Rightarrow> step" where
  "GenerateClient E g w =
     thenDo (MkdirAll E (g_OutputDir g) ''failed to create output directory'' w)
       (emit E g ''client'' (globalTemplateData E g ''client/client.go.tmpl'')
          (Join [g_OutputDir g, ''client_generated.go''])
          ''failed to execute client template''
          ''failed to format generated client code''
          ''failed to write client file'')"

definition GenerateClientModels :: "env \<Rightarrow> Generator \<Rightarrow> step" where
  "GenerateClientModels E g w =
     emit E g ''clientModels'' (globalTemplateData E g ''client/models.go.tmpl'')
       (Join [g_OutputDir g, ''models_generated.go''])
       ''failed to execute client models template''
       ''failed to format generated client models code''
       ''failed to write client models file'' w"

text \<open>
  One round of the loop of \<open>GenerateReconcilers\<close>: the generated file is always written,
  the stub only when no file of its name exists.
\<close>

definition reconcilerFor :: "env \<Rightarrow> Generator \<Rightarrow> ResourceMetadata \<Rightarrow> step" where
  "reconcilerFor E g resource w =
     thenDo
       (emit E g ''reconciler'' (templateData E g resource ''reconciliation/reconciler.go.tmpl'')
          (Join [g_OutputDir g, ToLower (rm_Name resource) @ ''_reconciler_generated.go''])
          (''failed to execute reconciler template for '' @ rm_Name resource)
          (''failed to format generated reconciler code for '' @ rm_Name resource)
          (''failed to write reconciler file for '' @ rm_Name resource) w)
       (\<lambda>w1.
          let stubFilename = Join [g_OutputDir g, ToLower (rm_Name resource) @ ''_reconciler.go'']
          in if w_files w1 stubFilename = None then
               emit E g ''reconcilerStub'' (templateData E g resource ''reconciliation/stub.go.tmpl'')
                 stubFilename
                 (''failed to execute reconciler stub template for '' @ rm_Name resource)
                 (''failed to format generated reconciler stub code for '' @ rm_Name resource)
                 (''failed to write reconciler stub file for '' @ rm_Name resource) w1
             else (None, w1))"

fun reconcilersLoop :: "env \<Rightarrow> Generator \<Rightarrow> ResourceMetadata list \<Rightarrow> step" where
  "reconcilersLoop E g [] w = (None, w)"
| "reconcilersLoop E g (resource # rest) w =
     thenDo (reconcilerFor E g resource w) (reconcilersLoop E g rest)"

definition GenerateReconcilers :: "env \<Rightarrow> Generator \<Rightarrow> step" where
  "GenerateReconcilers E g w = reconcilersLoop E g (g_Resources g) w"

definition GenerateReconcilerRegistration :: "env \<Rightarrow> Generator \<Rightarrow> step" where
  "GenerateReconcilerRegistration E g w =
     emit E g ''reconcilerRegistration'' (globalTemplateData E g ''reconciliation/registration.go.tmpl'')
       (Join [g_OutputDir g, ''registration_generated.go''])
       ''failed to execute reconciler registration template''
       ''failed to format generated reconciler registration code''
       ''failed to write reconciler registration file'' w"

definition GenerateEventHandlers :: "env \<Rightarrow> Generator \<Rightarrow> step" where
  "GenerateEventHandlers E g w =
     emit E g ''eventHandlers'' (globalTemplateData E g ''reconciliation/event-handlers.go.tmpl'')
       (Join [g_OutputDir g, ''event_handlers_generated.go''])
       ''failed to execute event handlers template''
       ''failed to format generated event handlers code''
       ''failed to write event handlers file'' w"

text \<open>
  \<open>executeTemplate\<close> checks that the template exists, makes the basic data when none is
  given, and formats only a path with the extension \<^verbatim>\<open>.go\<close>.
\<close>

definition executeTemplate :: "env \<Rightarrow> Generator \<Rightarrow> string \<Rightarrow> string \<Rightarrow> tdata option \<Rightarrow> step" where
  "executeTemplate E g templateName outputPath data w =
     (case g_Templates g templateName of
        None \<Rightarrow> (Some (Err (''template '' @ templateName @ '' not found'')), w)
      | Some tmpl \<Rightarrow>
          (let data' = (case data of
                          None \<Rightarrow> [(''Version'', VString (g_Version g)),
                                    (''GeneratedAt'', VString (env_Now E)),
                                    (''Template'', VString templateName)]
                        | Some d \<Rightarrow> d);
               w1 = w\<lparr>w_executed := w_executed w @ [(templateName, data')]\<rparr>
           in case env_Execute E tmpl data' of
                Inl cause \<Rightarrow> (Some (wrap (''failed to execute template '' @ templateName) cause), w1)
              | Inr buf \<Rightarrow>
                  (case (if Ext outputPath = ''.go'' then
                           (case env_FormatSource E buf of
                              Inl cause \<Rightarrow>
                                Inl (wrap (''failed to format generated code for '' @ outputPath) cause)
                            | Inr formatted \<Rightarrow> Inr formatted)
                         else Inr buf) of
                     Inl e \<Rightarrow> (Some e, w1)
                   | Inr output \<Rightarrow>
                       WriteFile E outputPath output (''failed to write file '' @ outputPath) w1)))"

definition GenerateEntSchemas :: "env \<Rightarrow> Generator \<Rightarrow> step" where
  "GenerateEntSchemas E g w =
     (if g_StorageType g \<noteq> ''ent'' then (None, w)
      else
        (let schemaDir = Join [''internal'', ''storage'', ''ent'', ''schema''] in
         runStages
           [MkdirAll E schemaDir ''failed to create ent schema directory'',
            executeTemplate E g ''entSchemaResource'' (Join [schemaDir, ''resource.go'']) None,
            executeTemplate E g ''entSchemaLabel'' (Join [schemaDir, ''label.go'']) None,
            executeTemplate E g ''entSchemaAnnotation'' (Join [schemaDir, ''annotation.go'']) None]
           w))"

text \<open>An error wrapped once more with \<^verbatim>\<open>%w\<close>; a panic is not an error value.\<close>

definition rewrap :: "string \<Rightarrow> failure option \<times> world \<Rightarrow> failure option \<times> world" where
  "rewrap msg r =
     (case r of
        (Some (Err cause), w) \<Rightarrow> (Some (wrap msg cause), w)
      | _ \<Rightarrow> r)"

definition GenerateEntAdapter :: "env \<Rightarrow> Generator \<Rightarrow> step" where
  "GenerateEntAdapter E g w =
     (if g_StorageType g \<noteq> ''ent'' then (None, w)
      else
        thenDo
          (emit E g ''entAdapter'' (globalTemplateData E g ''storage/adapter.go.tmpl'')
             (Join [''internal'', ''storage'', ''ent_adapter.go''])
             ''failed to execute ent adapter template''
             ''failed to format generated ent adapter code''
             ''failed to write ent adapter file'' w)
          (\<lambda>w1. rewrap ''failed to generate generate.go''
                  (executeTemplate E g ''generate'' (Join [''internal'', ''storage'', ''generate.go''])
                     None w1)))"

subsection \<open>The pipeline\<close>

text \<open>
  \<open>GenerateAll\<close> loads the templates and then runs the stages that the package name
  selects, in order, up to the first error.
\<close>

definition mainStages :: "env \<Rightarrow> Generator \<Rightarrow> step list" where
  "mainStages E g =
     (if g_StorageType g = ''ent'' then [GenerateEntSchemas E g, GenerateEntAdapter E g] else []) @
     [GenerateModels E g,
      GenerateHandlers E g,
      GenerateFlatHandlers E g,
      GenerateMiddleware E g,
      GenerateRoutes E g,
      GenerateStorage E g,
      GenerateOpenAPI E g]"

definition GenerateAll :: "env \<Rightarrow> Generator \<Rightarrow> world \<Rightarrow> failure option \<times> Generator \<times> world" where
  "GenerateAll E g0 w =
     (case LoadTemplates E g0 of
        (Some e, g) \<Rightarrow> (Some e, g, w)
      | (None, g) \<Rightarrow>
          (case (if g_PackageName g = ''main'' then runStages (mainStages E g) w
                 else if g_PackageName g = ''client'' then
                   runStages [GenerateClient E g, GenerateClientModels E g] w
                 else if g_PackageName g = ''reconcile'' then
                   runStages [GenerateReconcilers E g,
                              GenerateReconcilerRegistration E g,
                              GenerateEventHandlers E g] w
                 else (Some (Err (''unsupported package type: '' @ g_PackageName g)), w)) of
             (err, w') \<Rightarrow> (err, g, w')))"

section \<open>Reference definitions for the stated properties\<close>




text \<open>
  The type a registration describes (the pointee of a pointer), the fields of its
  \<open>Spec\<close> or \<open>Status\<close> sub-record, and the fields of a sub-record that are hidden by a
  \<^verbatim>\<open>json:"-"\<close> tag.
\<close>

definition derefType :: "rtype \<Rightarrow> rtype" where
  "derefType t = (if Kind t = KPtr then (case TElem t of Some e \<Rightarrow> e | None \<Rightarrow> t) else t)"

definition subRecordFields :: "rtype \<Rightarrow> string \<Rightarrow> StructField list" where
  "subRecordFields t targetField =
     (case find (\<lambda>f. FName f = targetField) (TFields t) of
        None \<Rightarrow> []
      | Some f \<Rightarrow> TFields (derefType (FType f)))"

definition jsonHidden :: "StructField \<Rightarrow> bool" where
  "jsonHidden f = (hd (Split (TagGet (FTag f) ''json'') (CHR '','')) = ''-'')"

definition visibleFields :: "StructField list \<Rightarrow> StructField list" where
  "visibleFields fs = filter (\<lambda>f. IsExported f \<and> \<not> jsonHidden f) fs"

definition exportedFields :: "StructField list \<Rightarrow> StructField list" where
  "exportedFields fs = filter IsExported fs"

text \<open>The record that \<open>extractFields\<close> appends for one field.\<close>

definition toSpecField :: "StructField \<Rightarrow> SpecField" where
  "toSpecField structField =
     \<lparr> sf_Name = FName structField,
       sf_JSONName = fieldJSONName structField,
       sf_Type = TString (FType structField),
       sf_Required = Contains (TagGet (FTag structField) ''validate'') ''required'',
       sf_ExampleValue = generateExampleValue (FType structField) (FName structField) \<rparr>"

text \<open>The versions of a resource that carry the default flag, and their number.\<close>

definition defaultFlagged :: "ResourceMetadata \<Rightarrow> SchemaVersion list" where
  "defaultFlagged r = filter sv_IsDefault (rm_Versions r)"

definition versionLabels :: "ResourceMetadata \<Rightarrow> string list" where
  "versionLabels r = map sv_Version (rm_Versions r)"


text \<open>
  Two properties of a step: \<open>logged f xs\<close>, whenever \<open>f\<close> returns without error it has
  added exactly the executions \<open>xs\<close> to the log; \<open>succeeds f\<close>, it never returns an error.
  An environment is \<open>quiet\<close> when none of its calls fails.
\<close>

definition logged :: "step \<Rightarrow> (string \<times> tdata) list \<Rightarrow> bool" where
  "logged f xs \<longleftrightarrow> (\<forall>w w'. f w = (None, w') \<longrightarrow> w_executed w' = w_executed w @ xs)"

definition succeeds :: "step \<Rightarrow> bool" where
  "succeeds f \<longleftrightarrow> (\<forall>w. fst (f w) = None)"

definition quiet :: "env \<Rightarrow> bool" where
  "quiet E \<longleftrightarrow>
     (\<forall>p. \<exists>c. env_ReadFile E p = Inr c) \<and> (\<forall>n c. env_Parse E n c = None) \<and>
     (\<forall>t d. \<exists>b. env_Execute E t d = Inr b) \<and> (\<forall>b. \<exists>f. env_FormatSource E b = Inr f) \<and>
     (\<forall>d. env_MkdirAll E d = None) \<and> (\<forall>f. env_WriteFile E f = None)"

text \<open>Every template of the catalog is in the generator's map.\<close>

definition loaded :: "Generator \<Rightarrow> bool" where
  "loaded g \<longleftrightarrow> list_all (\<lambda>entry. g_Templates g (fst entry) \<noteq> None) templateFiles"

text \<open>
  The executions of a run of the \<open>main\<close> stages in which no stage fails, stage by stage in
  the order \<open>GenerateAll\<close> calls them.
\<close>

definition basicData :: "env \<Rightarrow> Generator \<Rightarrow> string \<Rightarrow> tdata" where
  "basicData E g templateName =
     [(''Version'', VString (g_Version g)),
      (''GeneratedAt'', VString (env_Now E)),
      (''Template'', VString templateName)]"

definition entTrace :: "env \<Rightarrow> Generator \<Rightarrow> (string \<times> tdata) list" where
  "entTrace E g =
     (if g_StorageType g = ''ent'' then
        [(''entSchemaResource'', basicData E g ''entSchemaResource''),
         (''entSchemaLabel'', basicData E g ''entSchemaLabel''),
         (''entSchemaAnnotation'', basicData E g ''entSchemaAnnotation''),
         (''entAdapter'', globalTemplateData E g ''storage/adapter.go.tmpl''),
         (''generate'', basicData E g ''generate'')]
      else [])"

definition modelsTrace :: "env \<Rightarrow> Generator \<Rightarrow> (string \<times> tdata) list" where
  "modelsTrace E g =
     [(''models'', globalTemplateData E g ''server/models.go.tmpl''),
      (''flatModels'', globalTemplateData E g ''server/flat_models.go.tmpl'')]"

definition handlersTrace :: "env \<Rightarrow> Generator \<Rightarrow> ResourceMetadata list \<Rightarrow> (string \<times> tdata) list" where
  "handlersTrace E g rs =
     map (\<lambda>r. (''handlers'', templateData E g r ''server/handlers.go.tmpl'')) rs"

definition flatHandlersTrace :: "env \<Rightarrow> Generator \<Rightarrow> ResourceMetadata list \<Rightarrow> (string \<times> tdata) list" where
  "flatHandlersTrace E g rs =
     map (\<lambda>r. (''flatHandlers'', templateData E g r ''server/flat_handlers.go.tmpl'')) rs"

definition middlewareTrace :: "env \<Rightarrow> Generator \<Rightarrow> (string \<times> tdata) list" where
  "middlewareTrace E g =
     (if gc_ValidationEnabled (g_Config g)
      then [(''middlewareValidation'', middlewareData E g ''middleware/validation.go.tmpl'')] else []) @
     (if gc_ConditionalEnabled (g_Config g)
      then [(''middlewareConditional'', middlewareData E g ''middleware/conditional.go.tmpl'')] else []) @
     (if gc_VersioningEnabled (g_Config g)
      then [(''middlewareVersioning'', middlewareData E g ''middleware/versioning.go.tmpl'')] else []) @
     (if gc_EventsEnabled (g_Config g)
      then [(''eventBus'', middlewareData E g ''middleware/event-bus.go.tmpl'')] else [])"

definition storageTrace :: "env \<Rightarrow> Generator \<Rightarrow> (string \<times> tdata) list" where
  "storageTrace E g =
     (if g_StorageType g = ''ent''
      then [(''storageEnt'', globalTemplateData E g ''storage/ent.go.tmpl'')]
      else [(''storage'', globalTemplateData E g ''storage/file.go.tmpl'')])"

definition mainTrace :: "env \<Rightarrow> Generator \<Rightarrow> (string \<times> tdata) list" where
  "mainTrace E g =
     entTrace E g @ modelsTrace E g @
     handlersTrace E g (g_Resources g) @ flatHandlersTrace E g (g_Resources g) @
     flatHandlersTrace E g (g_Resources g) @
     middlewareTrace E g @
     [(''routes'', globalTemplateData E g ''server/routes.go.tmpl'')] @
     storageTrace E g @
     [(''openapi'', globalTemplateData E g ''server/openapi.go.tmpl'')]"

text \<open>How often the template \<open>name\<close> was executed according to the log.\<close>

definition executions :: "string \<Rightarrow> world \<Rightarrow> nat" where
  "executions name w = length (filter (\<lambda>e. fst e = name) (w_executed w))"

text \<open>What the registry keeps true of every resource.\<close>

definition resource_inv :: "ResourceMetadata \<Rightarrow> bool" where
  "resource_inv r \<longleftrightarrow>
     distinct (versionLabels r) \<and> defaultFlagged r \<noteq> [] \<and>
     sv_Version (last (defaultFlagged r)) = rm_DefaultVersion r"

subsection \<open>Example inputs\<close>

definition stringT :: rtype where
  "stringT = RType KString ''string'' [] ''string'' None []"

definition intT :: rtype where
  "intT = RType KInt ''int'' [] ''int'' None []"

text \<open>
  \<^verbatim>\<open>type Device struct { Spec DeviceSpec; Status DeviceStatus }\<close> in package
  \<^verbatim>\<open>example.com/app/pkg/resources/device\<close>, with
  \<^verbatim>\<open>DeviceSpec { Name string `json:"name" validate:"required"`; Secret string `json:"-"` }\<close>
  and \<^verbatim>\<open>DeviceStatus { Count int `json:"count"` }\<close>.
\<close>

definition deviceSpecT :: rtype where
  "deviceSpecT =
     RType KStruct ''DeviceSpec'' ''example.com/app/pkg/resources/device'' ''device.DeviceSpec'' None
       [StructField ''Name'' [] stringT [(''json'', ''name''), (''validate'', ''required'')],
        StructField ''Secret'' [] stringT [(''json'', ''-'')]]"

definition deviceStatusT :: rtype where
  "deviceStatusT =
     RType KStruct ''DeviceStatus'' ''example.com/app/pkg/resources/device'' ''device.DeviceStatus'' None
       [StructField ''Count'' [] intT [(''json'', ''count'')]]"

definition deviceT :: rtype where
  "deviceT =
     RType KStruct ''Device'' ''example.com/app/pkg/resources/device'' ''device.Device'' None
       [StructField ''Spec'' [] deviceSpecT [(''json'', ''spec'')],
        StructField ''Status'' [] deviceStatusT [(''json'', ''status,omitempty'')]]"

text \<open>
  A value of the unnamed type \<^verbatim>\<open>struct { Spec struct { Name string } }\<close>: an unnamed
  type has the empty name and the empty package path.
\<close>

definition anonT :: rtype where
  "anonT =
     RType KStruct [] [] ''struct { Spec struct { Name string } }'' None
       [StructField ''Spec'' []
          (RType KStruct [] [] ''struct { Name string }'' None [StructField ''Name'' [] stringT []])
          []]"

definition v2Default :: SchemaVersion where
  "v2Default =
     \<lparr> sv_Version = ''v2'', sv_IsDefault = True, sv_Stability = ''beta'', sv_Deprecated = False,
       sv_SpecType = ''device.DeviceSpec'', sv_StatusType = ''device.DeviceStatus'',
       sv_TypeName = ''*device.Device'', sv_Package = ''example.com/app/pkg/resources/device'',
       sv_Transforms = [] \<rparr>"

text \<open>The registry after registering \<open>deviceT\<close> with a fresh generator.\<close>

definition deviceMeta :: ResourceMetadata where
  "deviceMeta =
     \<lparr> rm_Name = ''Device'',
       rm_PluralName = ''devices'',
       rm_Package = ''example.com/app/pkg/resources/device'',
       rm_PackageAlias = ''device'',
       rm_TypeName = ''*device.Device'',
       rm_SpecType = ''device.DeviceSpec'',
       rm_StatusType = ''device.DeviceStatus'',
       rm_URLPath = ''/devices'',
       rm_StorageName = ''Device'',
       rm_Tags = Some Map.empty,
       rm_SpecFields =
         [\<lparr> sf_Name = ''Name'', sf_JSONName = ''name'', sf_Type = ''string'', sf_Required = True,
             sf_ExampleValue = ''example-name'' \<rparr>,
          \<lparr> sf_Name = ''Secret'', sf_JSONName = ''Secret'', sf_Type = ''string'', sf_Required = False,
             sf_ExampleValue = ''example-value'' \<rparr>],
       rm_StatusFields =
         [\<lparr> sf_Name = ''Count'', sf_JSONName = ''count'', sf_Type = ''int'', sf_Required = False,
             sf_ExampleValue = ''42'' \<rparr>],
       rm_Versions =
         [\<lparr> sv_Version = ''v1'', sv_IsDefault = True, sv_Stability = ''stable'', sv_Deprecated = False,
             sv_SpecType = ''device.DeviceSpec'', sv_StatusType = ''device.DeviceStatus'',
             sv_TypeName = ''*device.Device'', sv_Package = ''example.com/app/pkg/resources/device'',
             sv_Transforms = [] \<rparr>],
       rm_DefaultVersion = ''v1'',
       rm_APIGroupVersion = ''v1'' \<rparr>"

definition deviceRegistry :: Generator where
  "deviceRegistry = (NewGenerator ''out'' ''main'' ''example.com/app'')\<lparr>g_Resources := [deviceMeta]\<rparr>"

text \<open>
  An environment in which every call succeeds, the world before anything is written, and a
  generator with the unsupported package name \<open>worker\<close>.
\<close>

definition okEnv :: env where
  "okEnv =
     \<lparr> env_ReadFile = (\<lambda>p. Inr p),
       env_Parse = (\<lambda>n c. None),
       env_Execute = (\<lambda>t d. Inr ''package main''),
       env_FormatSource = (\<lambda>b. Inr b),
       env_Now = ''2025-01-01T00:00:00Z'',
       env_MkdirAll = (\<lambda>d. None),
       env_WriteFile = (\<lambda>f. None) \<rparr>"

definition emptyWorld :: world where
  "emptyWorld = \<lparr> w_files = Map.empty, w_dirs = {}, w_executed = [] \<rparr>"

definition workerGenerator :: Generator where
  "workerGenerator = deviceRegistry\<lparr>g_PackageName := ''worker''\<rparr>"

section \<open>Properties of the registry\<close>

lemma Split_nonempty: "Split s sep \<noteq> []"
  by (induction s) (auto split: list.splits)

lemma collectFields_append: "collectFields fs acc = acc @ map toSpecField (exportedFields fs)"
  by (induction fs arbitrary: acc) (simp_all add: exportedFields_def toSpecField_def)

lemma findTarget_ok:
  "findTarget fs target = Inr out \<Longrightarrow>
     out = map toSpecField (exportedFields
             (case find (\<lambda>f. FName f = target) fs of None \<Rightarrow> [] | Some f \<Rightarrow> TFields (derefType (FType f))))"
  by (induction fs)
     (auto simp: collectFields_append exportedFields_def derefType_def split: if_splits option.splits)

lemma extractFields_ok:
  "extractFields t target = Inr out \<Longrightarrow>
     out = map toSpecField (exportedFields (subRecordFields t target))"
  unfolding extractFields_def subRecordFields_def
  by (auto split: if_splits dest: findTarget_ok)

lemma RegisterResource_ok:
  assumes "RegisterResource g (Some t0) = (None, g')"
  shows "\<exists>m. g_Resources g' = g_Resources g @ [m]
           \<and> extractFields (derefType t0) ''Spec'' = Inr (rm_SpecFields m)
           \<and> extractFields (derefType t0) ''Status'' = Inr (rm_StatusFields m)
           \<and> rm_PackageAlias m = last (Split (TPkgPath (derefType t0)) (CHR ''/''))
           \<and> rm_Versions m = [\<lparr> sv_Version = ''v1'', sv_IsDefault = True, sv_Stability = ''stable'',
                 sv_Deprecated = False, sv_SpecType = rm_SpecType m, sv_StatusType = rm_StatusType m,
                 sv_TypeName = rm_TypeName m, sv_Package = rm_Package m, sv_Transforms = [] \<rparr>]
           \<and> rm_DefaultVersion m = ''v1''"
  using assms unfolding RegisterResource_def derefType_def
  by (auto simp: Let_def Split_nonempty split: option.splits sum.splits if_splits)

lemma fieldJSONName_hidden: "jsonHidden f \<Longrightarrow> fieldJSONName f = FName f"
  by (simp add: jsonHidden_def fieldJSONName_def Let_def)




lemma resource_inv_tags [simp]: "resource_inv (r\<lparr>rm_Tags := t\<rparr>) = resource_inv r"
  by (simp add: resource_inv_def versionLabels_def defaultFlagged_def)

lemma resource_inv_group [simp]: "resource_inv (r\<lparr>rm_APIGroupVersion := t\<rparr>) = resource_inv r"
  by (simp add: resource_inv_def versionLabels_def defaultFlagged_def)











subsection \<open>Field extraction\<close>

text \<open>
  Claim C1, as the code does it.  A successful registration lists every exported field of
  the \<open>Spec\<close> (and of the \<open>Status\<close>) sub-record, in declaration order, so the length of
  \<open>SpecFields\<close> is the number of exported fields.  A field whose \<^verbatim>\<open>json\<close> tag starts with
  the segment \<^verbatim>\<open>-\<close> is listed too, under its source name as serialization name.
\<close>

theorem registration_lists_every_exported_field:
  assumes "RegisterResource g (Some t0) = (None, g')"
  shows "rm_SpecFields (last (g_Resources g')) =
           map toSpecField (exportedFields (subRecordFields (derefType t0) ''Spec''))
       \<and> rm_StatusFields (last (g_Resources g')) =
           map toSpecField (exportedFields (subRecordFields (derefType t0) ''Status''))
       \<and> length (rm_SpecFields (last (g_Resources g'))) =
           length (exportedFields (subRecordFields (derefType t0) ''Spec''))
       \<and> length (rm_StatusFields (last (g_Resources g'))) =
           length (exportedFields (subRecordFields (derefType t0) ''Status''))
       \<and> (\<forall>f. jsonHidden f \<longrightarrow> sf_JSONName (toSpecField f) = FName f)"
proof -
  from RegisterResource_ok [OF assms]
  obtain m where m: "g_Resources g' = g_Resources g @ [m]"
    and sp: "extractFields (derefType t0) ''Spec'' = Inr (rm_SpecFields m)"
    and st: "extractFields (derefType t0) ''Status'' = Inr (rm_StatusFields m)" by blast
  from m have l: "last (g_Resources g') = m" by simp
  from extractFields_ok [OF sp] extractFields_ok [OF st] l fieldJSONName_hidden
  show ?thesis by (simp add: toSpecField_def)
qed

text \<open>
  Registering \<open>Device\<close> lists both \<open>Name\<close> and the hidden \<open>Secret\<close>.
\<close>

theorem registration_lists_every_exported_field_witness:
  "map sf_Name (rm_SpecFields (last (g_Resources (snd (RegisterResource
       (NewGenerator ''out'' ''main'' ''example.com/app'') (Some deviceT)))))) = [''Name'', ''Secret'']
   \<and> jsonHidden (StructField ''Secret'' [] stringT [(''json'', ''-'')])
   \<and> sf_JSONName (toSpecField (StructField ''Secret'' [] stringT [(''json'', ''-'')])) = ''Secret''"
proof -
  let ?g = "NewGenerator ''out'' ''main'' ''example.com/app''"
  have "fst (RegisterResource ?g (Some deviceT)) = None" by code_simp
  then have "RegisterResource ?g (Some deviceT) = (None, snd (RegisterResource ?g (Some deviceT)))"
    by (metis prod.collapse)
  from registration_lists_every_exported_field [OF this]
  have a: "rm_SpecFields (last (g_Resources (snd (RegisterResource ?g (Some deviceT))))) =
          map toSpecField (exportedFields (subRecordFields (derefType deviceT) ''Spec''))"
    and b: "\<forall>f. jsonHidden f \<longrightarrow> sf_JSONName (toSpecField f) = FName f" by blast+
  have c: "map sf_Name (map toSpecField (exportedFields (subRecordFields (derefType deviceT) ''Spec'')))
             = [''Name'', ''Secret'']" by code_simp
  have d: "jsonHidden (StructField ''Secret'' [] stringT [(''json'', ''-'')])" by code_simp
  from a b c d show ?thesis by simp
qed

text \<open>
  Claim C1 as stated (a field tagged \<^verbatim>\<open>json:"-"\<close> is omitted) fails: the \<open>Spec\<close>
  sub-record of \<open>Device\<close> has one exported field without the tag and one with it, and
  \<open>SpecFields\<close> has both.
\<close>

theorem hidden_field_counterexample:
  "jsonHidden (StructField ''Secret'' [] stringT [(''json'', ''-'')])
   \<and> subRecordFields deviceT ''Spec'' =
       [StructField ''Name'' [] stringT [(''json'', ''name''), (''validate'', ''required'')],
        StructField ''Secret'' [] stringT [(''json'', ''-'')]]
   \<and> length (visibleFields (subRecordFields deviceT ''Spec'')) = 1
   \<and> map sf_Name (rm_SpecFields (last (g_Resources (snd (RegisterResource
       (NewGenerator ''out'' ''main'' ''example.com/app'') (Some deviceT))))))
       = [''Name'', ''Secret'']"
  by code_simp

subsection \<open>Package alias\<close>

lemma alias_is_last_segment:
  "RegisterResource g (Some t0) = (None, g') \<Longrightarrow>
     rm_PackageAlias (last (g_Resources g')) = last (Split (TPkgPath (derefType t0)) (CHR ''/''))"
  by (auto dest: RegisterResource_ok)

text \<open>
  Claim C6 at a type with the empty package path.  \<open>Split\<close> of the empty string is one
  empty segment, so the list of segments is never empty, the branch that assigns
  \<^verbatim>\<open>resources\<close> is never taken, and the alias is the empty string.
\<close>

theorem empty_path_alias_is_empty:
  "fst (RegisterResource (NewGenerator ''out'' ''main'' ''example.com/app'') (Some anonT)) = None
   \<and> TPkgPath anonT = []
   \<and> map rm_PackageAlias (g_Resources (snd (RegisterResource
        (NewGenerator ''out'' ''main'' ''example.com/app'') (Some anonT)))) = [[]]"
  by code_simp

subsection \<open>Example values\<close>



subsection \<open>Constructor defaults\<close>

text \<open>
  Claim C10.  The configuration of a freshly constructed generator: validation enabled in
  mode \<open>strict\<close>, conditional requests enabled with ETag algorithm \<open>sha256\<close>, versioning
  enabled with strategy \<open>header\<close>, events disabled with bus type \<open>memory\<close>, storage type
  \<open>file\<close> and database driver \<open>sqlite\<close>, in the configuration and in the generator.
\<close>

theorem NewGenerator_defaults:
  "gc_ValidationEnabled (g_Config (NewGenerator outputDir packageName modulePath))
   \<and> gc_ValidationMode (g_Config (NewGenerator outputDir packageName modulePath)) = ''strict''
   \<and> gc_ConditionalEnabled (g_Config (NewGenerator outputDir packageName modulePath))
   \<and> gc_ETagAlgorithm (g_Config (NewGenerator outputDir packageName modulePath)) = ''sha256''
   \<and> gc_VersioningEnabled (g_Config (NewGenerator outputDir packageName modulePath))
   \<and> gc_VersionStrategy (g_Config (NewGenerator outputDir packageName modulePath)) = ''header''
   \<and> \<not> gc_EventsEnabled (g_Config (NewGenerator outputDir packageName modulePath))
   \<and> gc_EventBusType (g_Config (NewGenerator outputDir packageName modulePath)) = ''memory''
   \<and> gc_StorageType (g_Config (NewGenerator outputDir packageName modulePath)) = ''file''
   \<and> gc_DBDriver (g_Config (NewGenerator outputDir packageName modulePath)) = ''sqlite''
   \<and> g_StorageType (NewGenerator outputDir packageName modulePath) = ''file''
   \<and> g_DBDriver (NewGenerator outputDir packageName modulePath) = ''sqlite''
   \<and> g_OutputDir (NewGenerator outputDir packageName modulePath) = outputDir
   \<and> g_PackageName (NewGenerator outputDir packageName modulePath) = packageName
   \<and> g_ModulePath (NewGenerator outputDir packageName modulePath) = modulePath
   \<and> g_Resources (NewGenerator outputDir packageName modulePath) = []"
  by (simp add: NewGenerator_def)


subsection \<open>Adding versions\<close>

lemma addVersionLoop_conflict:
  "find (\<lambda>resource. rm_Name resource = n) rs = Some r \<Longrightarrow>
   sv_Version v \<in> set (versionLabels r) \<Longrightarrow>
   addVersionLoop rs n v = Inl (Err (''version '' @ sv_Version v @ '' already exists for resource '' @ n))"
  by (induction rs) (auto simp: versionLabels_def list_ex_iff split: if_splits)

lemma addVersionLoop_not_found:
  "find (\<lambda>resource. rm_Name resource = n) rs = None \<Longrightarrow>
   addVersionLoop rs n v = Inl (Err (''resource '' @ n @ '' not found''))"
  by (induction rs) (auto split: if_splits)

lemma addVersionLoop_fresh:
  "find (\<lambda>resource. rm_Name resource = n) rs = Some r \<Longrightarrow>
   sv_Version v \<notin> set (versionLabels r) \<Longrightarrow>
   \<exists>rs'. addVersionLoop rs n v = Inr rs' \<and> length rs' = length rs \<and>
      find (\<lambda>resource. rm_Name resource = n) rs' =
        Some (r\<lparr> rm_Versions := rm_Versions r @ [v],
                 rm_DefaultVersion := (if sv_IsDefault v then sv_Version v else rm_DefaultVersion r) \<rparr>)"
proof (induction rs)
  case Nil
  then show ?case by simp
next
  case (Cons a rs)
  show ?case
  proof (cases "rm_Name a = n")
    case True
    with Cons.prems have "a = r" by simp
    with True Cons.prems(2) show ?thesis
      by (auto simp: versionLabels_def list_ex_iff image_iff)
  next
    case False
    with Cons.prems have "find (\<lambda>resource. rm_Name resource = n) rs = Some r" by simp
    from Cons.IH [OF this Cons.prems(2)] False show ?thesis by auto
  qed
qed

text \<open>
  Claim C4.  When the resource found under the name already has a version with the label,
  \<open>AddResourceVersion\<close> returns the conflict error and the generator is unchanged; when no
  resource has the name, it returns the not-found error, the generator unchanged as well.
\<close>

theorem add_existing_version_fails:
  "(GetResourceByName g resourceName = Some r \<and> sv_Version version \<in> set (versionLabels r) \<longrightarrow>
      AddResourceVersion g resourceName version =
        (Some (Err (''version '' @ sv_Version version @ '' already exists for resource ''
                    @ resourceName)), g))
   \<and> (GetResourceByName g resourceName = None \<longrightarrow>
      AddResourceVersion g resourceName version =
        (Some (Err (''resource '' @ resourceName @ '' not found'')), g))"
  by (simp add: GetResourceByName_def AddResourceVersion_def addVersionLoop_conflict
        addVersionLoop_not_found)

text \<open>
  Claim C5.  Adding a version with a fresh label to the resource found under the name
  succeeds and appends the version; \<open>DefaultVersion\<close> becomes the new label when the
  version is flagged default, and stays as it was otherwise.
\<close>

theorem add_fresh_version_default:
  assumes "GetResourceByName g resourceName = Some r"
    and "sv_Version version \<notin> set (versionLabels r)"
  shows "fst (AddResourceVersion g resourceName version) = None
     \<and> GetResourceByName (snd (AddResourceVersion g resourceName version)) resourceName =
         Some (r\<lparr> rm_Versions := rm_Versions r @ [version],
                  rm_DefaultVersion :=
                    (if sv_IsDefault version then sv_Version version else rm_DefaultVersion r) \<rparr>)"
proof -
  from assms(1) have "find (\<lambda>resource. rm_Name resource = resourceName) (g_Resources g) = Some r"
    by (simp add: GetResourceByName_def)
  from addVersionLoop_fresh [OF this assms(2)] show ?thesis
    by (auto simp: AddResourceVersion_def GetResourceByName_def)
qed

subsection \<open>Tags\<close>

lemma setTagLoop_idem:
  "setTagLoop (setTagLoop rs n k v) n k v = setTagLoop rs n k v"
  by (induction rs) (simp_all add: Let_def)

lemma setTagLoop_absent:
  "find (\<lambda>resource. rm_Name resource = n) rs = None \<Longrightarrow> setTagLoop rs n k v = rs"
  by (induction rs) (auto split: if_splits)

text \<open>
  Claim C9.  Setting the same tag twice gives the generator that setting it once gives;
  and setting a tag on a name that no resource has changes nothing.
\<close>

theorem set_tag_idempotent:
  "SetResourceTag (SetResourceTag g resourceName key val) resourceName key val =
     SetResourceTag g resourceName key val
   \<and> (GetResourceByName g resourceName = None \<longrightarrow> SetResourceTag g resourceName key val = g)"
  by (simp add: SetResourceTag_def GetResourceByName_def setTagLoop_idem setTagLoop_absent)


lemma deviceRegistry_registered:
  "RegisterResource (NewGenerator ''out'' ''main'' ''example.com/app'') (Some deviceT) = (None, deviceRegistry)"
proof -
  have sp: "extractFields deviceT ''Spec'' = Inr (rm_SpecFields deviceMeta)" by code_simp
  have st: "extractFields deviceT ''Status'' = Inr (rm_StatusFields deviceMeta)" by code_simp
  have k: "Kind deviceT = KStruct" "TName deviceT = ''Device''"
    "TPkgPath deviceT = ''example.com/app/pkg/resources/device''" by (simp_all add: deviceT_def)
  have sl: "Split ''example.com/app/pkg/resources/device'' (CHR ''/'') =
      [''example.com'', ''app'', ''pkg'', ''resources'', ''device'']" by code_simp
  have lw: "ToLower ''Device'' = ''device''" by code_simp
  show ?thesis
    by (simp add: RegisterResource_def sp st k sl lw deviceRegistry_def deviceMeta_def Let_def
          NewGenerator_def)
qed

text \<open>
  Adding \<open>v1\<close> again to \<open>Device\<close>, and adding a version to the unknown \<open>Rack\<close>.
\<close>

theorem add_existing_version_fails_witness:
  "GetResourceByName deviceRegistry ''Device'' = Some deviceMeta
   \<and> ''v1'' \<in> set (versionLabels deviceMeta)
   \<and> AddResourceVersion deviceRegistry ''Device'' (v2Default\<lparr>sv_Version := ''v1''\<rparr>) =
       (Some (Err ''version v1 already exists for resource Device''), deviceRegistry)
   \<and> GetResourceByName deviceRegistry ''Rack'' = None
   \<and> AddResourceVersion deviceRegistry ''Rack'' v2Default =
       (Some (Err ''resource Rack not found''), deviceRegistry)"
proof -
  have a: "GetResourceByName deviceRegistry ''Device'' = Some deviceMeta"
    by (simp add: GetResourceByName_def deviceRegistry_def deviceMeta_def)
  have b: "sv_Version (v2Default\<lparr>sv_Version := ''v1''\<rparr>) \<in> set (versionLabels deviceMeta)"
    by (simp add: versionLabels_def deviceMeta_def)
  have c: "GetResourceByName deviceRegistry ''Rack'' = None"
    by (simp add: GetResourceByName_def deviceRegistry_def deviceMeta_def)
  from add_existing_version_fails [of deviceRegistry "''Device''" deviceMeta "v2Default\<lparr>sv_Version := ''v1''\<rparr>"]
       add_existing_version_fails [of deviceRegistry "''Rack''" deviceMeta v2Default] a b c
  show ?thesis by simp
qed

text \<open>
  Adding \<open>v2\<close> to \<open>Device\<close>, flagged and unflagged.
\<close>

theorem add_fresh_version_default_witness:
  "GetResourceByName deviceRegistry ''Device'' = Some deviceMeta
   \<and> sv_Version v2Default \<notin> set (versionLabels deviceMeta)
   \<and> fst (AddResourceVersion deviceRegistry ''Device'' v2Default) = None
   \<and> GetResourceByName (snd (AddResourceVersion deviceRegistry ''Device'' v2Default)) ''Device'' =
       Some (deviceMeta\<lparr> rm_Versions := rm_Versions deviceMeta @ [v2Default],
                         rm_DefaultVersion := ''v2'' \<rparr>)
   \<and> GetResourceByName
        (snd (AddResourceVersion deviceRegistry ''Device'' (v2Default\<lparr>sv_IsDefault := False\<rparr>))) ''Device'' =
       Some (deviceMeta\<lparr> rm_Versions := rm_Versions deviceMeta @ [v2Default\<lparr>sv_IsDefault := False\<rparr>],
                         rm_DefaultVersion := ''v1'' \<rparr>)"
proof -
  have a: "GetResourceByName deviceRegistry ''Device'' = Some deviceMeta"
    by (simp add: GetResourceByName_def deviceRegistry_def deviceMeta_def)
  have b: "sv_Version v2Default \<notin> set (versionLabels deviceMeta)"
    by (simp add: versionLabels_def deviceMeta_def v2Default_def)
  have b': "sv_Version (v2Default\<lparr>sv_IsDefault := False\<rparr>) \<notin> set (versionLabels deviceMeta)"
    by (simp add: versionLabels_def deviceMeta_def v2Default_def)
  have d: "sv_IsDefault v2Default" "sv_Version v2Default = ''v2''" "rm_DefaultVersion deviceMeta = ''v1''"
    by (simp_all add: v2Default_def deviceMeta_def)
  from add_fresh_version_default [OF a b] add_fresh_version_default [OF a b'] a b d
  show ?thesis by simp
qed

text \<open>
  The unknown \<open>Rack\<close> and the registered \<open>Device\<close>.
\<close>

theorem set_tag_idempotent_witness:
  "GetResourceByName deviceRegistry ''Rack'' = None
   \<and> SetResourceTag deviceRegistry ''Rack'' ''versioning'' ''enabled'' = deviceRegistry
   \<and> SetResourceTag (SetResourceTag deviceRegistry ''Device'' ''versioning'' ''enabled'')
        ''Device'' ''versioning'' ''enabled'' =
      SetResourceTag deviceRegistry ''Device'' ''versioning'' ''enabled''"
proof -
  have c: "GetResourceByName deviceRegistry ''Rack'' = None"
    by (simp add: GetResourceByName_def deviceRegistry_def deviceMeta_def)
  from set_tag_idempotent [of deviceRegistry "''Rack''" "''versioning''" "''enabled''"]
       set_tag_idempotent [of deviceRegistry "''Device''" "''versioning''" "''enabled''"] c
  show ?thesis by simp
qed

section \<open>Properties of the pipeline\<close>

subsection \<open>What a stage logs when it succeeds\<close>

lemma thenDo_None [simp]: "thenDo (None, w) f = f w"
  by (simp add: thenDo_def)

lemma thenDo_Some [simp]: "thenDo (Some e, w) f = (Some e, w)"
  by (simp add: thenDo_def)

lemma thenDo_ok:
  "thenDo r f = (None, w') \<Longrightarrow> \<exists>w1. r = (None, w1) \<and> f w1 = (None, w')"
  by (cases r) (auto simp: thenDo_def split: option.splits)

lemma logged_thenDo:
  assumes "logged f xs" and "logged h ys"
  shows "logged (\<lambda>w. thenDo (f w) h) (xs @ ys)"
  unfolding logged_def
proof (intro allI impI)
  fix w w'
  assume "thenDo (f w) h = (None, w')"
  from thenDo_ok [OF this] obtain w1 where "f w = (None, w1)" and "h w1 = (None, w')" by blast
  with assms show "w_executed w' = w_executed w @ xs @ ys" by (simp add: logged_def)
qed

lemma logged_skip: "logged (\<lambda>w. (None, w)) []"
  by (simp add: logged_def)

lemma logged_runStages_Nil: "logged (runStages []) []"
  by (simp add: logged_def)

lemma logged_runStages_Cons:
  assumes "logged s xs" and "logged (runStages ss) ys"
  shows "logged (runStages (s # ss)) (xs @ ys)"
proof -
  have "runStages (s # ss) = (\<lambda>w. thenDo (s w) (runStages ss))" by (rule ext) simp
  with logged_thenDo [OF assms] show ?thesis by simp
qed

lemma logged_runStages_append:
  assumes "logged (runStages ss) xs" and "logged (runStages ts) ys"
  shows "logged (runStages (ss @ ts)) (xs @ ys)"
proof -
  have "runStages (ss @ ts) = (\<lambda>w. thenDo (runStages ss w) (runStages ts))"
  proof (induction ss)
    case Nil
    show ?case by (rule ext) simp
  next
    case (Cons s ss)
    show ?case
    proof (rule ext)
      fix w
      show "runStages ((s # ss) @ ts) w = thenDo (runStages (s # ss) w) (runStages ts)"
        by (cases "s w") (auto simp: Cons.IH thenDo_def split: option.splits)
    qed
  qed
  with logged_thenDo [OF assms] show ?thesis by simp
qed

lemma logged_WriteFile: "logged (WriteFile E filename content msg) []"
  by (auto simp: logged_def WriteFile_def split: option.splits)

lemma logged_MkdirAll: "logged (MkdirAll E dir msg) []"
  by (auto simp: logged_def MkdirAll_def split: option.splits)

lemma render_ok:
  "render E g name data m1 m2 w = (Inr out, w') \<Longrightarrow>
     w' = w\<lparr>w_executed := w_executed w @ [(name, data)]\<rparr>"
  by (auto simp: render_def Let_def split: option.splits sum.splits)

lemma logged_emit: "logged (emit E g name data filename m1 m2 m3) [(name, data)]"
  unfolding logged_def
proof (intro allI impI)
  fix w w'
  assume a: "emit E g name data filename m1 m2 m3 w = (None, w')"
  obtain r w1 where r: "render E g name data m1 m2 w = (r, w1)" by (cases "render E g name data m1 m2 w")
  with a obtain out where out: "r = Inr out" and wr: "WriteFile E filename out m3 w1 = (None, w')"
    by (cases r) (auto simp: emit_def)
  from render_ok [OF r [unfolded out]] have "w_executed w1 = w_executed w @ [(name, data)]" by simp
  moreover from wr logged_WriteFile have "w_executed w' = w_executed w1 @ []"
    unfolding logged_def by blast
  ultimately show "w_executed w' = w_executed w @ [(name, data)]" by simp
qed

lemma logged_executeTemplate:
  "logged (executeTemplate E g name path None) [(name, basicData E g name)]"
  unfolding logged_def
proof (intro allI impI)
  fix w w'
  assume a: "executeTemplate E g name path None w = (None, w')"
  let ?w1 = "w\<lparr>w_executed := w_executed w @ [(name, basicData E g name)]\<rparr>"
  from a obtain out where "WriteFile E path out (''failed to write file '' @ path) ?w1 = (None, w')"
    by (auto simp: executeTemplate_def basicData_def Let_def split: option.splits sum.splits if_splits)
  with logged_WriteFile have "w_executed w' = w_executed ?w1 @ []" unfolding logged_def by blast
  then show "w_executed w' = w_executed w @ [(name, basicData E g name)]" by simp
qed

lemma logged_rewrap: "logged f xs \<Longrightarrow> logged (\<lambda>w. rewrap msg (f w)) xs"
  unfolding logged_def rewrap_def
  by (auto split: prod.splits option.splits failure.splits)

lemma logged_handlersLoop: "logged (handlersLoop E g rs) (handlersTrace E g rs)"
proof (induction rs)
  case Nil
  show ?case by (simp add: logged_def handlersTrace_def)
next
  case (Cons r rs)
  have "handlersLoop E g (r # rs) =
      (\<lambda>w. thenDo (emit E g ''handlers'' (templateData E g r ''server/handlers.go.tmpl'')
          (Join [g_OutputDir g, ToLower (rm_Name r) @ ''_handlers_generated.go''])
          (''failed to execute handlers template for '' @ rm_Name r)
          (''failed to format generated code for '' @ rm_Name r)
          (''failed to write handlers file for '' @ rm_Name r) w) (handlersLoop E g rs))"
    by (rule ext) simp
  with logged_thenDo [OF logged_emit Cons.IH] show ?case
    by (simp add: handlersTrace_def)
qed

lemma logged_flatHandlersLoop: "logged (flatHandlersLoop E g rs) (flatHandlersTrace E g rs)"
proof (induction rs)
  case Nil
  show ?case by (simp add: logged_def flatHandlersTrace_def)
next
  case (Cons r rs)
  have "flatHandlersLoop E g (r # rs) =
      (\<lambda>w. thenDo (emit E g ''flatHandlers'' (templateData E g r ''server/flat_handlers.go.tmpl'')
          (Join [g_OutputDir g, ToLower (rm_Name r) @ ''_flat_handlers_generated.go''])
          (''failed to execute flat handlers template for '' @ rm_Name r)
          (''failed to format generated code for '' @ rm_Name r)
          (''failed to write flat handlers file for '' @ rm_Name r) w) (flatHandlersLoop E g rs))"
    by (rule ext) simp
  with logged_thenDo [OF logged_emit Cons.IH] show ?case
    by (simp add: flatHandlersTrace_def)
qed

lemma logged_GenerateFlatHandlers:
  "logged (GenerateFlatHandlers E g) (flatHandlersTrace E g (g_Resources g))"
proof -
  have "GenerateFlatHandlers E g = flatHandlersLoop E g (g_Resources g)"
    by (rule ext) (simp add: GenerateFlatHandlers_def)
  with logged_flatHandlersLoop show ?thesis by simp
qed

lemma logged_GenerateHandlers:
  "logged (GenerateHandlers E g)
     (handlersTrace E g (g_Resources g) @ flatHandlersTrace E g (g_Resources g))"
proof -
  have "GenerateHandlers E g =
      (\<lambda>w. thenDo (handlersLoop E g (g_Resources g) w) (GenerateFlatHandlers E g))"
    by (rule ext) (simp add: GenerateHandlers_def)
  with logged_thenDo [OF logged_handlersLoop logged_GenerateFlatHandlers] show ?thesis by simp
qed

lemma logged_GenerateModels: "logged (GenerateModels E g) (modelsTrace E g)"
proof -
  have "GenerateModels E g =
     (\<lambda>w. thenDo
       (emit E g ''models'' (globalTemplateData E g ''server/models.go.tmpl'')
          (Join [g_OutputDir g, ''models_generated.go''])
          ''failed to execute models template''
          ''failed to format generated models code''
          ''failed to write models file'' w)
       (emit E g ''flatModels'' (globalTemplateData E g ''server/flat_models.go.tmpl'')
          (Join [g_OutputDir g, ''flat_models_generated.go''])
          ''failed to execute flat models template''
          ''failed to format generated flat models code''
          ''failed to write flat models file''))"
    by (rule ext) (simp add: GenerateModels_def)
  with logged_thenDo [OF logged_emit logged_emit] show ?thesis by (simp add: modelsTrace_def)
qed

lemma logged_generateMiddlewareFile:
  "logged (generateMiddlewareFile E g name filename dir data) [(name, data)]"
proof -
  have "generateMiddlewareFile E g name filename dir data =
      emit E g name data (Join [dir, filename])
       (''failed to execute '' @ name @ '' template'')
       (''failed to format generated '' @ name @ '' code'')
       (''failed to write '' @ name @ '' file'')"
    by (rule ext) (simp add: generateMiddlewareFile_def)
  with logged_emit show ?thesis by simp
qed

lemma logged_single: "logged s xs \<Longrightarrow> logged (runStages [s]) xs"
  using logged_runStages_Cons [OF _ logged_runStages_Nil] by fastforce

lemma logged_optional:
  "logged s xs \<Longrightarrow> logged (runStages (if b then [s] else [])) (if b then xs else [])"
  by (simp add: logged_single logged_runStages_Nil)

lemma logged_GenerateMiddleware: "logged (GenerateMiddleware E g) (middlewareTrace E g)"
proof -
  let ?dir = "Join [''internal'', ''middleware'']"
  let ?a = "if gc_ValidationEnabled (g_Config g) then
            [generateMiddlewareFile E g ''middlewareValidation'' ''validation_middleware_generated.go''
               ?dir (middlewareData E g ''middleware/validation.go.tmpl'')]
          else []"
  let ?b = "if gc_ConditionalEnabled (g_Config g) then
            [generateMiddlewareFile E g ''middlewareConditional'' ''conditional_middleware_generated.go''
               ?dir (middlewareData E g ''middleware/conditional.go.tmpl'')]
          else []"
  let ?c = "if gc_VersioningEnabled (g_Config g) then
            [generateMiddlewareFile E g ''middlewareVersioning'' ''versioning_middleware_generated.go''
               ?dir (middlewareData E g ''middleware/versioning.go.tmpl'')]
          else []"
  let ?d = "if gc_EventsEnabled (g_Config g) then
            [generateMiddlewareFile E g ''eventBus'' ''event_bus_generated.go''
               ?dir (middlewareData E g ''middleware/event-bus.go.tmpl'')]
          else []"
  have eq: "GenerateMiddleware E g =
      runStages ([MkdirAll E ?dir ''failed to create middleware directory''] @ ?a @ ?b @ ?c @ ?d)"
    by (rule ext) (simp add: GenerateMiddleware_def Let_def)
  have m: "logged (runStages [MkdirAll E ?dir ''failed to create middleware directory'']) []"
    by (rule logged_single [OF logged_MkdirAll])
  note o = logged_optional [OF logged_generateMiddlewareFile]
  have "logged (runStages (?c @ ?d))
      ((if gc_VersioningEnabled (g_Config g)
        then [(''middlewareVersioning'', middlewareData E g ''middleware/versioning.go.tmpl'')] else []) @
       (if gc_EventsEnabled (g_Config g)
        then [(''eventBus'', middlewareData E g ''middleware/event-bus.go.tmpl'')] else []))"
    by (rule logged_runStages_append [OF o o])
  from logged_runStages_append [OF o this]
  have "logged (runStages (?b @ ?c @ ?d))
      ((if gc_ConditionalEnabled (g_Config g)
        then [(''middlewareConditional'', middlewareData E g ''middleware/conditional.go.tmpl'')] else []) @
       (if gc_VersioningEnabled (g_Config g)
        then [(''middlewareVersioning'', middlewareData E g ''middleware/versioning.go.tmpl'')] else []) @
       (if gc_EventsEnabled (g_Config g)
        then [(''eventBus'', middlewareData E g ''middleware/event-bus.go.tmpl'')] else []))" .
  from logged_runStages_append [OF o this]
  have "logged (runStages (?a @ ?b @ ?c @ ?d)) (middlewareTrace E g)"
    unfolding middlewareTrace_def .
  from logged_runStages_append [OF m this] eq show ?thesis by simp
qed


lemma logged_GenerateRoutes:
  "logged (GenerateRoutes E g) [(''routes'', globalTemplateData E g ''server/routes.go.tmpl'')]"
proof -
  have "GenerateRoutes E g =
      emit E g ''routes'' (globalTemplateData E g ''server/routes.go.tmpl'')
       (Join [g_OutputDir g, ''routes_generated.go''])
       ''failed to execute routes template''
       ''failed to format generated routes code''
       ''failed to write routes file''"
    by (rule ext) (simp add: GenerateRoutes_def)
  with logged_emit show ?thesis by simp
qed

lemma logged_GenerateOpenAPI:
  "logged (GenerateOpenAPI E g) [(''openapi'', globalTemplateData E g ''server/openapi.go.tmpl'')]"
proof -
  have "GenerateOpenAPI E g =
      emit E g ''openapi'' (globalTemplateData E g ''server/openapi.go.tmpl'')
       (Join [g_OutputDir g, ''openapi_generated.go''])
       ''failed to execute openapi template''
       ''failed to format generated openapi code''
       ''failed to write openapi file''"
    by (rule ext) (simp add: GenerateOpenAPI_def)
  with logged_emit show ?thesis by simp
qed

lemma logged_GenerateStorage: "logged (GenerateStorage E g) (storageTrace E g)"
  unfolding logged_def
proof (intro allI impI)
  fix w w'
  let ?name = "if g_StorageType g = ''ent'' then ''storageEnt'' else ''storage''"
  let ?data = "globalTemplateData E g
      (if g_StorageType g = ''ent'' then ''storage/ent.go.tmpl'' else ''storage/file.go.tmpl'')"
  assume a: "GenerateStorage E g w = (None, w')"
  obtain r w1 where r: "render E g ?name ?data ''failed to execute storage template''
                ''failed to format generated storage code'' w = (r, w1)"
    by (cases "render E g ?name ?data ''failed to execute storage template''
                ''failed to format generated storage code'' w")
  with a obtain out where out: "r = Inr out"
    and rest: "thenDo (MkdirAll E (Join [''internal'', ''storage'']) ''failed to create storage directory'' w1)
                (WriteFile E (Join [Join [''internal'', ''storage''], ''storage_generated.go'']) out
                   ''failed to write storage file'') = (None, w')"
    by (cases r) (auto simp: GenerateStorage_def Let_def)
  from render_ok [OF r [unfolded out]] have 1: "w_executed w1 = w_executed w @ [(?name, ?data)]" by simp
  from rest logged_thenDo [OF logged_MkdirAll logged_WriteFile]
  have "w_executed w' = w_executed w1 @ [] @ []" unfolding logged_def by blast
  with 1 show "w_executed w' = w_executed w @ storageTrace E g"
    by (simp add: storageTrace_def)
qed

lemma logged_GenerateEntSchemas:
  "logged (GenerateEntSchemas E g)
     (if g_StorageType g = ''ent'' then
        [(''entSchemaResource'', basicData E g ''entSchemaResource''),
         (''entSchemaLabel'', basicData E g ''entSchemaLabel''),
         (''entSchemaAnnotation'', basicData E g ''entSchemaAnnotation'')]
      else [])"
proof (cases "g_StorageType g = ''ent''")
  case False
  then have "GenerateEntSchemas E g = (\<lambda>w. (None, w))"
    by (intro ext) (simp add: GenerateEntSchemas_def)
  with False logged_skip show ?thesis by simp
next
  case True
  let ?dir = "Join [''internal'', ''storage'', ''ent'', ''schema'']"
  from True have eq: "GenerateEntSchemas E g =
      runStages
           [MkdirAll E ?dir ''failed to create ent schema directory'',
            executeTemplate E g ''entSchemaResource'' (Join [?dir, ''resource.go'']) None,
            executeTemplate E g ''entSchemaLabel'' (Join [?dir, ''label.go'']) None,
            executeTemplate E g ''entSchemaAnnotation'' (Join [?dir, ''annotation.go'']) None]"
    by (intro ext) (simp add: GenerateEntSchemas_def Let_def)
  note e = logged_executeTemplate
  from logged_runStages_Cons [OF logged_MkdirAll
         logged_runStages_Cons [OF e logged_runStages_Cons [OF e logged_runStages_Cons [OF e
           logged_runStages_Nil]]]]
  have "logged (runStages
           [MkdirAll E ?dir ''failed to create ent schema directory'',
            executeTemplate E g ''entSchemaResource'' (Join [?dir, ''resource.go'']) None,
            executeTemplate E g ''entSchemaLabel'' (Join [?dir, ''label.go'']) None,
            executeTemplate E g ''entSchemaAnnotation'' (Join [?dir, ''annotation.go'']) None])
         ([] @ [(''entSchemaResource'', basicData E g ''entSchemaResource'')] @
           [(''entSchemaLabel'', basicData E g ''entSchemaLabel'')] @
           [(''entSchemaAnnotation'', basicData E g ''entSchemaAnnotation'')] @ [])" .
  with eq True show ?thesis by simp
qed

lemma logged_GenerateEntAdapter:
  "logged (GenerateEntAdapter E g)
     (if g_StorageType g = ''ent'' then
        [(''entAdapter'', globalTemplateData E g ''storage/adapter.go.tmpl''),
         (''generate'', basicData E g ''generate'')]
      else [])"
proof (cases "g_StorageType g = ''ent''")
  case False
  then have "GenerateEntAdapter E g = (\<lambda>w. (None, w))"
    by (intro ext) (simp add: GenerateEntAdapter_def)
  with False logged_skip show ?thesis by simp
next
  case True
  then have eq: "GenerateEntAdapter E g =
      (\<lambda>w. thenDo
          (emit E g ''entAdapter'' (globalTemplateData E g ''storage/adapter.go.tmpl'')
             (Join [''internal'', ''storage'', ''ent_adapter.go''])
             ''failed to execute ent adapter template''
             ''failed to format generated ent adapter code''
             ''failed to write ent adapter file'' w)
          (\<lambda>w1. rewrap ''failed to generate generate.go''
                  (executeTemplate E g ''generate'' (Join [''internal'', ''storage'', ''generate.go''])
                     None w1)))"
    by (intro ext) (simp add: GenerateEntAdapter_def)
  from logged_thenDo [OF logged_emit logged_rewrap [OF logged_executeTemplate]] eq True
  show ?thesis by simp
qed

lemma logged_mainStages: "logged (runStages (mainStages E g)) (mainTrace E g)"
proof -
  let ?ent = "if g_StorageType g = ''ent'' then [GenerateEntSchemas E g, GenerateEntAdapter E g] else []"
  let ?rest = "[GenerateModels E g, GenerateHandlers E g, GenerateFlatHandlers E g,
      GenerateMiddleware E g, GenerateRoutes E g, GenerateStorage E g, GenerateOpenAPI E g]"
  have ent: "logged (runStages ?ent) (entTrace E g)"
  proof (cases "g_StorageType g = ''ent''")
    case False
    then show ?thesis by (simp add: entTrace_def logged_runStages_Nil)
  next
    case True
    from logged_runStages_Cons [OF logged_GenerateEntSchemas [of E g]
           logged_runStages_Cons [OF logged_GenerateEntAdapter [of E g] logged_runStages_Nil]] True
    show ?thesis by (simp add: entTrace_def)
  qed
  from logged_runStages_Cons [OF logged_GenerateModels
         logged_runStages_Cons [OF logged_GenerateHandlers
         logged_runStages_Cons [OF logged_GenerateFlatHandlers
         logged_runStages_Cons [OF logged_GenerateMiddleware
         logged_runStages_Cons [OF logged_GenerateRoutes
         logged_runStages_Cons [OF logged_GenerateStorage
         logged_runStages_Cons [OF logged_GenerateOpenAPI logged_runStages_Nil]]]]]]]
  have rest: "logged (runStages ?rest)
      (modelsTrace E g @ (handlersTrace E g (g_Resources g) @ flatHandlersTrace E g (g_Resources g)) @
       flatHandlersTrace E g (g_Resources g) @ middlewareTrace E g @
       [(''routes'', globalTemplateData E g ''server/routes.go.tmpl'')] @ storageTrace E g @
       [(''openapi'', globalTemplateData E g ''server/openapi.go.tmpl'')] @ [])" .
  from logged_runStages_append [OF ent rest] show ?thesis
    by (simp add: mainStages_def mainTrace_def)
qed

subsection \<open>Loading the templates\<close>

lemma LoadTemplates_fields:
  "LoadTemplates E g = (err, g') \<Longrightarrow> \<exists>T. g' = g\<lparr>g_Templates := T\<rparr>"
  by (auto simp: LoadTemplates_def split: prod.splits)

lemma data_ignores_templates [simp]:
  "templateData E (g\<lparr>g_Templates := T\<rparr>) r n = templateData E g r n"
  "globalTemplateData E (g\<lparr>g_Templates := T\<rparr>) n = globalTemplateData E g n"
  "middlewareData E (g\<lparr>g_Templates := T\<rparr>) n = middlewareData E g n"
  "basicData E (g\<lparr>g_Templates := T\<rparr>) n = basicData E g n"
  by (simp_all add: templateData_def globalTemplateData_def middlewareData_def basicData_def
        extractProjectName_def)

lemma mainTrace_ignores_templates [simp]:
  "mainTrace E (g\<lparr>g_Templates := T\<rparr>) = mainTrace E g"
  by (simp add: mainTrace_def entTrace_def modelsTrace_def handlersTrace_def flatHandlersTrace_def
        middlewareTrace_def storageTrace_def)

lemma main_success_trace:
  assumes "g_PackageName g = ''main''" and "GenerateAll E g w = (None, g', w')"
  shows "w_executed w' = w_executed w @ mainTrace E g"
proof -
  obtain err g1 where l: "LoadTemplates E g = (err, g1)" by (cases "LoadTemplates E g")
  from LoadTemplates_fields [OF l] obtain T where g1: "g1 = g\<lparr>g_Templates := T\<rparr>" by blast
  from assms(2) l have err: "err = None"
    by (cases err) (simp_all add: GenerateAll_def)
  from assms l err g1 have "runStages (mainStages E g1) w = (None, w')"
    by (auto simp: GenerateAll_def split: prod.splits)
  with logged_mainStages [of E g1] have "w_executed w' = w_executed w @ mainTrace E g1"
    unfolding logged_def by blast
  with g1 show ?thesis by simp
qed


lemma flat_handlers_twice:
  assumes "g_PackageName g = ''main''" and "GenerateAll E g w = (None, g', w')"
  shows "executions ''flatHandlers'' w' = executions ''flatHandlers'' w + 2 * length (g_Resources g)"
proof -
  have flat: "length (filter (\<lambda>e. fst e = ''flatHandlers'') (flatHandlersTrace E g rs)) = length rs" for rs
    by (induction rs) (simp_all add: flatHandlersTrace_def)
  have other: "filter (\<lambda>e. fst e = ''flatHandlers'') (handlersTrace E g rs) = []" for rs
    by (induction rs) (simp_all add: handlersTrace_def)
  have "length (filter (\<lambda>e. fst e = ''flatHandlers'') (mainTrace E g)) = 2 * length (g_Resources g)"
    by (simp add: mainTrace_def flat other entTrace_def modelsTrace_def middlewareTrace_def
          storageTrace_def)
  with main_success_trace [OF assms] show ?thesis by (simp add: executions_def)
qed

subsection \<open>A quiet environment\<close>

lemma succeeds_thenDo:
  assumes "succeeds f" and "succeeds h"
  shows "succeeds (\<lambda>w. thenDo (f w) h)"
  unfolding succeeds_def
proof
  fix w
  obtain r w1 where fw: "f w = (r, w1)" by (cases "f w")
  with assms(1) have "r = None" unfolding succeeds_def by (metis fst_conv)
  with fw assms(2) show "fst (thenDo (f w) h) = None" by (simp add: succeeds_def)
qed

lemma succeeds_runStages: "list_all succeeds ss \<Longrightarrow> succeeds (runStages ss)"
proof (induction ss)
  case Nil
  show ?case by (simp add: succeeds_def)
next
  case (Cons s ss)
  then have "succeeds s" and "succeeds (runStages ss)" by simp_all
  from succeeds_thenDo [OF this] have "succeeds (\<lambda>w. thenDo (s w) (runStages ss))" .
  moreover have "runStages (s # ss) = (\<lambda>w. thenDo (s w) (runStages ss))" by (rule ext) simp
  ultimately show ?case by simp
qed

lemma succeeds_WriteFile: "quiet E \<Longrightarrow> succeeds (WriteFile E filename content msg)"
  by (simp add: succeeds_def quiet_def WriteFile_def)

lemma succeeds_MkdirAll: "quiet E \<Longrightarrow> succeeds (MkdirAll E dir msg)"
  by (simp add: succeeds_def quiet_def MkdirAll_def)

lemma render_quiet:
  assumes "quiet E" and "g_Templates g name \<noteq> None"
  shows "\<exists>out w1. render E g name data m1 m2 w = (Inr out, w1)"
proof -
  from assms(2) obtain tmpl where t: "g_Templates g name = Some tmpl" by blast
  from assms(1) obtain buf where b: "env_Execute E tmpl data = Inr buf" unfolding quiet_def by blast
  from assms(1) obtain formatted where f: "env_FormatSource E buf = Inr formatted"
    unfolding quiet_def by blast
  from t b f show ?thesis by (simp add: render_def Let_def)
qed

lemma succeeds_emit:
  assumes "quiet E" and "g_Templates g name \<noteq> None"
  shows "succeeds (emit E g name data filename m1 m2 m3)"
  unfolding succeeds_def
proof
  fix w
  from render_quiet [OF assms] obtain out w1 where "render E g name data m1 m2 w = (Inr out, w1)"
    by blast
  with succeeds_WriteFile [OF assms(1)] show "fst (emit E g name data filename m1 m2 m3 w) = None"
    by (simp add: emit_def succeeds_def)
qed

lemma succeeds_executeTemplate:
  assumes "quiet E" and "g_Templates g name \<noteq> None"
  shows "succeeds (executeTemplate E g name path data)"
  unfolding succeeds_def
proof
  fix w
  let ?data = "case data of None \<Rightarrow> [(''Version'', VString (g_Version g)),
                                    (''GeneratedAt'', VString (env_Now E)),
                                    (''Template'', VString name)]
                        | Some d \<Rightarrow> d"
  from assms(2) obtain tmpl where t: "g_Templates g name = Some tmpl" by blast
  from assms(1) obtain buf where b: "env_Execute E tmpl ?data = Inr buf" unfolding quiet_def by blast
  from assms(1) obtain formatted where f: "env_FormatSource E buf = Inr formatted"
    unfolding quiet_def by blast
  from assms(1) have wr: "\<And>p c m w. fst (WriteFile E p c m w) = None"
    using succeeds_WriteFile by (simp add: succeeds_def)
  from t b f wr show "fst (executeTemplate E g name path data w) = None"
    by (simp add: executeTemplate_def Let_def)
qed

lemma loaded_name:
  "loaded g \<Longrightarrow> name \<in> set (map fst templateFiles) \<Longrightarrow> g_Templates g name \<noteq> None"
  by (auto simp: loaded_def list_all_iff)

lemma succeeds_emit_loaded:
  assumes "quiet E" and "loaded g" and "name \<in> set (map fst templateFiles)"
  shows "succeeds (emit E g name data filename m1 m2 m3)"
  by (rule succeeds_emit [OF assms(1) loaded_name [OF assms(2,3)]])

lemma in_catalog:
  "''handlers'' \<in> set (map fst templateFiles)"
  "''flatHandlers'' \<in> set (map fst templateFiles)"
  "''models'' \<in> set (map fst templateFiles)"
  "''flatModels'' \<in> set (map fst templateFiles)"
  "''routes'' \<in> set (map fst templateFiles)"
  "''openapi'' \<in> set (map fst templateFiles)"
  "''storage'' \<in> set (map fst templateFiles)"
  "''middlewareValidation'' \<in> set (map fst templateFiles)"
  "''middlewareConditional'' \<in> set (map fst templateFiles)"
  "''middlewareVersioning'' \<in> set (map fst templateFiles)"
  "''eventBus'' \<in> set (map fst templateFiles)"
  by (simp_all add: templateFiles_def)

lemma succeeds_handlersLoop:
  assumes "quiet E" and "loaded g"
  shows "succeeds (handlersLoop E g rs)"
proof (induction rs)
  case Nil
  show ?case by (simp add: succeeds_def)
next
  case (Cons r rs)
  have "handlersLoop E g (r # rs) =
      (\<lambda>w. thenDo (emit E g ''handlers'' (templateData E g r ''server/handlers.go.tmpl'')
          (Join [g_OutputDir g, ToLower (rm_Name r) @ ''_handlers_generated.go''])
          (''failed to execute handlers template for '' @ rm_Name r)
          (''failed to format generated code for '' @ rm_Name r)
          (''failed to write handlers file for '' @ rm_Name r) w) (handlersLoop E g rs))"
    by (rule ext) simp
  with succeeds_thenDo [OF succeeds_emit_loaded [OF assms in_catalog(1)] Cons.IH] show ?case by simp
qed

lemma succeeds_flatHandlersLoop:
  assumes "quiet E" and "loaded g"
  shows "succeeds (flatHandlersLoop E g rs)"
proof (induction rs)
  case Nil
  show ?case by (simp add: succeeds_def)
next
  case (Cons r rs)
  have "flatHandlersLoop E g (r # rs) =
      (\<lambda>w. thenDo (emit E g ''flatHandlers'' (templateData E g r ''server/flat_handlers.go.tmpl'')
          (Join [g_OutputDir g, ToLower (rm_Name r) @ ''_flat_handlers_generated.go''])
          (''failed to execute flat handlers template for '' @ rm_Name r)
          (''failed to format generated code for '' @ rm_Name r)
          (''failed to write flat handlers file for '' @ rm_Name r) w) (flatHandlersLoop E g rs))"
    by (rule ext) simp
  with succeeds_thenDo [OF succeeds_emit_loaded [OF assms in_catalog(2)] Cons.IH] show ?case by simp
qed

lemma succeeds_main_stages:
  assumes q: "quiet E" and l: "loaded g" and nonent: "g_StorageType g \<noteq> ''ent''"
  shows "succeeds (runStages (mainStages E g))"
proof -
  note e = succeeds_emit_loaded [OF q l]
  have flat: "succeeds (GenerateFlatHandlers E g)"
    using succeeds_flatHandlersLoop [OF q l, of "g_Resources g"]
    by (simp add: succeeds_def GenerateFlatHandlers_def)
  have handlers: "succeeds (GenerateHandlers E g)"
    using succeeds_thenDo [OF succeeds_handlersLoop [OF q l, of "g_Resources g"] flat]
    by (simp add: succeeds_def GenerateHandlers_def)
  have models: "succeeds (GenerateModels E g)"
    using succeeds_thenDo [OF e [OF in_catalog(3)] e [OF in_catalog(4)]]
    by (simp add: succeeds_def GenerateModels_def)
  have mw: "succeeds (generateMiddlewareFile E g name filename dir data)"
    if "name \<in> set (map fst templateFiles)" for name filename dir data
    using e [OF that] by (simp add: succeeds_def generateMiddlewareFile_def)
  have middleware: "succeeds (GenerateMiddleware E g)"
  proof -
    let ?dir = "Join [''internal'', ''middleware'']"
    let ?stages = "[MkdirAll E ?dir ''failed to create middleware directory''] @
         (if gc_ValidationEnabled (g_Config g) then
            [generateMiddlewareFile E g ''middlewareValidation'' ''validation_middleware_generated.go''
               ?dir (middlewareData E g ''middleware/validation.go.tmpl'')]
          else []) @
         (if gc_ConditionalEnabled (g_Config g) then
            [generateMiddlewareFile E g ''middlewareConditional'' ''conditional_middleware_generated.go''
               ?dir (middlewareData E g ''middleware/conditional.go.tmpl'')]
          else []) @
         (if gc_VersioningEnabled (g_Config g) then
            [generateMiddlewareFile E g ''middlewareVersioning'' ''versioning_middleware_generated.go''
               ?dir (middlewareData E g ''middleware/versioning.go.tmpl'')]
          else []) @
         (if gc_EventsEnabled (g_Config g) then
            [generateMiddlewareFile E g ''eventBus'' ''event_bus_generated.go''
               ?dir (middlewareData E g ''middleware/event-bus.go.tmpl'')]
          else [])"
    have "list_all succeeds ?stages"
      by (simp add: succeeds_MkdirAll [OF q] mw [OF in_catalog(8)] mw [OF in_catalog(9)]
            mw [OF in_catalog(10)] mw [OF in_catalog(11)])
    from succeeds_runStages [OF this] show ?thesis
      by (simp add: succeeds_def GenerateMiddleware_def Let_def)
  qed
  have routes: "succeeds (GenerateRoutes E g)"
    using e [OF in_catalog(5)] by (simp add: succeeds_def GenerateRoutes_def)
  have openapi: "succeeds (GenerateOpenAPI E g)"
    using e [OF in_catalog(6)] by (simp add: succeeds_def GenerateOpenAPI_def)
  have storage: "succeeds (GenerateStorage E g)"
    unfolding succeeds_def
  proof
    fix w
    from render_quiet [OF q loaded_name [OF l in_catalog(7)]]
    obtain out w1 where "render E g ''storage'' (globalTemplateData E g ''storage/file.go.tmpl'')
        ''failed to execute storage template'' ''failed to format generated storage code'' w
        = (Inr out, w1)" by blast
    with nonent succeeds_thenDo [OF succeeds_MkdirAll [OF q] succeeds_WriteFile [OF q]]
    show "fst (GenerateStorage E g w) = None"
      by (simp add: GenerateStorage_def Let_def succeeds_def)
  qed
  from nonent models handlers flat middleware routes storage openapi show ?thesis
    by (intro succeeds_runStages) (simp add: mainStages_def)
qed

lemma loadLoop_quiet:
  assumes "quiet E"
  shows "\<exists>T. loadLoop E catalog m = (None, T) \<and>
           (\<forall>name. name \<in> set (map fst catalog) \<or> m name \<noteq> None \<longrightarrow> T name \<noteq> None)"
proof (induction catalog arbitrary: m)
  case Nil
  show ?case by simp
next
  case (Cons entry catalog)
  obtain name filename where entry: "entry = (name, filename)" by (cases entry)
  from assms obtain content where rd: "env_ReadFile E (Join [''templates'', filename]) = Inr content"
    unfolding quiet_def by blast
  from assms have ps: "env_Parse E name content = None" unfolding quiet_def by blast
  from Cons.IH [of "m(name \<mapsto> Template name content)"]
  obtain T where T: "loadLoop E catalog (m(name \<mapsto> Template name content)) = (None, T)"
    and dom: "\<forall>n. n \<in> set (map fst catalog) \<or> (m(name \<mapsto> Template name content)) n \<noteq> None
                \<longrightarrow> T n \<noteq> None" by blast
  from entry rd ps T have "loadLoop E (entry # catalog) m = (None, T)" by (simp add: Let_def)
  moreover from dom entry have "\<forall>n. n \<in> set (map fst (entry # catalog)) \<or> m n \<noteq> None \<longrightarrow> T n \<noteq> None"
    by auto
  ultimately show ?case by blast
qed

lemma LoadTemplates_quiet:
  assumes "quiet E"
  shows "\<exists>T. LoadTemplates E g = (None, g\<lparr>g_Templates := T\<rparr>) \<and> loaded (g\<lparr>g_Templates := T\<rparr>)"
proof -
  from loadLoop_quiet [OF assms, of templateFiles Map.empty]
  obtain T where "loadLoop E templateFiles Map.empty = (None, T)"
    and "\<forall>name. name \<in> set (map fst templateFiles) \<longrightarrow> T name \<noteq> None" by auto
  then show ?thesis by (auto simp: LoadTemplates_def loaded_def list_all_iff)
qed

lemma GenerateAll_main_quiet:
  assumes "quiet E" and "g_PackageName g = ''main''" and "g_StorageType g \<noteq> ''ent''"
  shows "fst (GenerateAll E g w) = None"
proof -
  from LoadTemplates_quiet [OF assms(1), of g]
  obtain T where lt: "LoadTemplates E g = (None, g\<lparr>g_Templates := T\<rparr>)"
    and l: "loaded (g\<lparr>g_Templates := T\<rparr>)" by blast
  from assms(3) have "g_StorageType (g\<lparr>g_Templates := T\<rparr>) \<noteq> ''ent''" by simp
  from succeeds_main_stages [OF assms(1) l this]
  have "fst (runStages (mainStages E (g\<lparr>g_Templates := T\<rparr>)) w) = None" by (simp add: succeeds_def)
  with lt assms(2) show ?thesis
    by (cases "runStages (mainStages E (g\<lparr>g_Templates := T\<rparr>)) w") (simp add: GenerateAll_def)
qed

lemma quiet_okEnv: "quiet okEnv"
  by (simp add: quiet_def okEnv_def)


subsection \<open>The pipeline as a whole\<close>

text \<open>
  Claim C3 at a generator for package \<open>main\<close> with one registered resource, in an
  environment where nothing fails.  \<open>GenerateAll\<close> succeeds, and the log shows the flat
  handlers template executed twice for the one resource: once at the end of
  \<open>GenerateHandlers\<close> and once by the stage \<open>GenerateFlatHandlers\<close> that follows it.
\<close>

theorem flat_handlers_run_twice:
  "g_PackageName deviceRegistry = ''main''
   \<and> length (g_Resources deviceRegistry) = 1
   \<and> fst (GenerateAll okEnv deviceRegistry emptyWorld) = None
   \<and> map fst (w_executed (snd (snd (GenerateAll okEnv deviceRegistry emptyWorld)))) =
       [''models'', ''flatModels'', ''handlers'', ''flatHandlers'', ''flatHandlers'',
        ''middlewareValidation'', ''middlewareConditional'', ''middlewareVersioning'',
        ''routes'', ''storage'', ''openapi'']
   \<and> executions ''flatHandlers'' (snd (snd (GenerateAll okEnv deviceRegistry emptyWorld))) = 2"
proof -
  have pk: "g_PackageName deviceRegistry = ''main''"
    and st: "g_StorageType deviceRegistry \<noteq> ''ent''"
    and n: "length (g_Resources deviceRegistry) = 1"
    and cfg: "gc_ValidationEnabled (g_Config deviceRegistry)"
      "gc_ConditionalEnabled (g_Config deviceRegistry)"
      "gc_VersioningEnabled (g_Config deviceRegistry)"
      "\<not> gc_EventsEnabled (g_Config deviceRegistry)"
    by (simp_all add: deviceRegistry_def NewGenerator_def)
  have ok: "fst (GenerateAll okEnv deviceRegistry emptyWorld) = None"
    by (rule GenerateAll_main_quiet [OF quiet_okEnv pk st])
  obtain g' w' where r: "GenerateAll okEnv deviceRegistry emptyWorld = (None, g', w')"
    using ok by (cases "GenerateAll okEnv deviceRegistry emptyWorld") auto
  from main_success_trace [OF pk r]
  have tr: "w_executed w' = mainTrace okEnv deviceRegistry" by (simp add: emptyWorld_def)
  have names: "map fst (mainTrace okEnv deviceRegistry) =
       [''models'', ''flatModels'', ''handlers'', ''flatHandlers'', ''flatHandlers'',
        ''middlewareValidation'', ''middlewareConditional'', ''middlewareVersioning'',
        ''routes'', ''storage'', ''openapi'']"
    using st cfg
    by (simp add: mainTrace_def entTrace_def modelsTrace_def middlewareTrace_def storageTrace_def
          handlersTrace_def flatHandlersTrace_def)
       (simp add: deviceRegistry_def)
  from flat_handlers_twice [OF pk r] n
  have "executions ''flatHandlers'' w' = 2" by (simp add: executions_def emptyWorld_def)
  with pk n r tr names show ?thesis by simp
qed

text \<open>
  Claim C8.  With a package name other than \<open>main\<close>, \<open>client\<close> and \<open>reconcile\<close>,
  \<open>GenerateAll\<close> returns an error and leaves the world as it was: no template is executed,
  no file or directory is written.  The error is the unsupported-package error whenever the
  templates load; a template that cannot be read or parsed is reported first.
\<close>

theorem unsupported_package_fails:
  assumes "g_PackageName g \<noteq> ''main''" and "g_PackageName g \<noteq> ''client''"
    and "g_PackageName g \<noteq> ''reconcile''"
  shows "fst (GenerateAll E g w) \<noteq> None
     \<and> snd (snd (GenerateAll E g w)) = w
     \<and> (fst (LoadTemplates E g) = None \<longrightarrow>
          fst (GenerateAll E g w) = Some (Err (''unsupported package type: '' @ g_PackageName g)))"
proof -
  obtain err g1 where l: "LoadTemplates E g = (err, g1)" by (cases "LoadTemplates E g")
  from LoadTemplates_fields [OF l] have "g_PackageName g1 = g_PackageName g" by auto
  with assms l show ?thesis by (cases err) (simp_all add: GenerateAll_def)
qed

text \<open>
  The package name \<open>worker\<close> in an environment where the templates load.
\<close>

theorem unsupported_package_fails_witness:
  "g_PackageName workerGenerator = ''worker''
   \<and> fst (LoadTemplates okEnv workerGenerator) = None
   \<and> fst (GenerateAll okEnv workerGenerator emptyWorld) =
       Some (Err ''unsupported package type: worker'')
   \<and> snd (snd (GenerateAll okEnv workerGenerator emptyWorld)) = emptyWorld"
proof -
  have pk: "g_PackageName workerGenerator = ''worker''"
    by (simp add: workerGenerator_def)
  from LoadTemplates_quiet [OF quiet_okEnv, of workerGenerator]
  have l: "fst (LoadTemplates okEnv workerGenerator) = None" by auto
  from unsupported_package_fails [of workerGenerator okEnv emptyWorld] pk l
  show ?thesis by simp
qed

end
